theory Spec2Isabelle
  imports Complex_Main "HOL-Library.List_Lexorder"
begin

unbundle bit_operations_syntax

section \<open>SHA-256\<close>

text \<open>
  \<^verbatim>\<open>createHash('sha256').update(s).digest('hex')\<close> of the Node.js runtime: SHA-256 as in
  FIPS 180-4, on the bytes of the string, rendered as 64 lowercase hexadecimal digits.
  32-bit words are integers below \<open>2 ^ 32\<close>, with the wrap-around of addition written out.
\<close>

definition add32 :: "int \<Rightarrow> int \<Rightarrow> int" where
  "add32 x y = (x + y) mod 4294967296"

definition rotr :: "nat \<Rightarrow> int \<Rightarrow> int" where
  "rotr n x = x div 2 ^ n + (x mod 2 ^ n) * 2 ^ (32 - n)"

definition shr :: "nat \<Rightarrow> int \<Rightarrow> int" where
  "shr n x = x div 2 ^ n"

definition ssig0 :: "int \<Rightarrow> int" where "ssig0 x = rotr 7 x XOR rotr 18 x XOR shr 3 x"
definition ssig1 :: "int \<Rightarrow> int" where "ssig1 x = rotr 17 x XOR rotr 19 x XOR shr 10 x"
definition bsig0 :: "int \<Rightarrow> int" where "bsig0 x = rotr 2 x XOR rotr 13 x XOR rotr 22 x"
definition bsig1 :: "int \<Rightarrow> int" where "bsig1 x = rotr 6 x XOR rotr 11 x XOR rotr 25 x"
definition ch :: "int \<Rightarrow> int \<Rightarrow> int \<Rightarrow> int" where
  "ch x y z = (x AND y) XOR ((4294967295 - x) AND z)"
definition maj :: "int \<Rightarrow> int \<Rightarrow> int \<Rightarrow> int" where
  "maj x y z = (x AND y) XOR (x AND z) XOR (y AND z)"

text \<open>The 64 round constants and the initial hash value, in decimal.\<close>
definition K256 :: "int list" where
  "K256 = [
   1116352408, 1899447441, 3049323471, 3921009573, 961987163, 1508970993, 2453635748, 2870763221,
   3624381080, 310598401, 607225278, 1426881987, 1925078388, 2162078206, 2614888103, 3248222580,
   3835390401, 4022224774, 264347078, 604807628, 770255983, 1249150122, 1555081692, 1996064986,
   2554220882, 2821834349, 2952996808, 3210313671, 3336571891, 3584528711, 113926993, 338241895,
   666307205, 773529912, 1294757372, 1396182291, 1695183700, 1986661051, 2177026350, 2456956037,
   2730485921, 2820302411, 3259730800, 3345764771, 3516065817, 3600352804, 4094571909, 275423344,
   430227734, 506948616, 659060556, 883997877, 958139571, 1322822218, 1537002063, 1747873779,
   1955562222, 2024104815, 2227730452, 2361852424, 2428436474, 2756734187, 3204031479, 3329325298]"

type_synonym sha_state = "int \<times> int \<times> int \<times> int \<times> int \<times> int \<times> int \<times> int"

definition H0 :: sha_state where
  "H0 = (1779033703, 3144134277, 1013904242, 2773480762, 1359893119, 2600822924, 528734635, 1541459225)"

text \<open>
  The message schedule is kept as a window of 16 words, oldest first: the head is the word
  of the current round, and each round appends the word 16 places further on.
\<close>
definition next_w :: "int list \<Rightarrow> int" where
  "next_w ws = add32 (add32 (add32 (ssig1 (ws ! 14)) (ws ! 9)) (ssig0 (ws ! 1))) (ws ! 0)"

fun round_step :: "sha_state \<Rightarrow> int \<times> int \<Rightarrow> sha_state" where
  "round_step (a, b, c, d, e, f, g, h) (k, w) =
     (let t1 = add32 (add32 (add32 (add32 h (bsig1 e)) (ch e f g)) k) w;
          t2 = add32 (bsig0 a) (maj a b c)
      in (add32 t1 t2, a, b, c, add32 d t1, e, f, g))"

fun rounds :: "sha_state \<Rightarrow> int list \<Rightarrow> int list \<Rightarrow> sha_state" where
  "rounds st [] ws = st"
| "rounds st (k # ks) ws = rounds (round_step st (k, hd ws)) ks (tl ws @ [next_w ws])"

fun be32 :: "int list \<Rightarrow> int list" where
  "be32 (a # b # c # d # r) = (((a * 256 + b) * 256 + c) * 256 + d) # be32 r"
| "be32 _ = []"

fun add_state :: "sha_state \<Rightarrow> sha_state \<Rightarrow> sha_state" where
  "add_state (a, b, c, d, e, f, g, h) (a', b', c', d', e', f', g', h') =
     (add32 a a', add32 b b', add32 c c', add32 d d', add32 e e', add32 f f', add32 g g', add32 h h')"

definition compress :: "sha_state \<Rightarrow> int list \<Rightarrow> sha_state" where
  "compress st block = add_state st (rounds st K256 (be32 block))"

function blocks :: "sha_state \<Rightarrow> int list \<Rightarrow> sha_state" where
  "blocks st bs = (if bs = [] then st else blocks (compress st (take 64 bs)) (drop 64 bs))"
  by pat_completeness auto
termination
  by (relation "measure (\<lambda>(st, bs). length bs)") auto

declare blocks.simps [simp del]

definition be_bytes4 :: "int \<Rightarrow> int list" where
  "be_bytes4 v = [v div 16777216 mod 256, v div 65536 mod 256, v div 256 mod 256, v mod 256]"

text \<open>Padding: the byte \<open>0x80\<close>, zeros up to 56 modulo 64, and the bit length in 64 bits.\<close>
definition pad :: "int list \<Rightarrow> int list" where
  "pad m = (let l = int (length m); z = nat ((119 - l mod 64) mod 64)
            in m @ [128] @ replicate z 0 @ be_bytes4 ((8 * l) div 4294967296) @ be_bytes4 ((8 * l) mod 4294967296))"

definition hexdigit :: "nat \<Rightarrow> char" where
  "hexdigit n = (''0123456789abcdef'') ! n"

definition hex_byte :: "int \<Rightarrow> string" where
  "hex_byte b = [hexdigit (nat (b div 16)), hexdigit (nat (b mod 16))]"

fun digest_bytes :: "sha_state \<Rightarrow> int list" where
  "digest_bytes (a, b, c, d, e, f, g, h) = concat (map be_bytes4 [a, b, c, d, e, f, g, h])"

definition sha256_bytes :: "int list \<Rightarrow> int list" where
  "sha256_bytes m = digest_bytes (blocks H0 (pad m))"

definition sha256 :: "string \<Rightarrow> string" where
  "sha256 s = concat (map hex_byte (sha256_bytes (map of_char s)))"

section \<open>crypto.ts: Merkle root and gene hash\<close>

text \<open>
  The keys and values of a record are arbitrary JavaScript strings: sequences of UTF-16 code
  units, here integers from 0 to 65535. \<^verbatim>\<open>update(s)\<close> of a Node.js hash, called with a string
  and no encoding, hashes the UTF-8 encoding of the string. In that encoding a surrogate
  pair becomes the four bytes of its code point, and a surrogate code unit without its
  partner becomes the three bytes \<open>EF BF BD\<close> of the replacement character U+FFFD.
\<close>
type_synonym js_string = "int list"

definition high_surrogate :: "int \<Rightarrow> bool" where
  "high_surrogate u = (55296 \<le> u \<and> u < 56320)"

definition low_surrogate :: "int \<Rightarrow> bool" where
  "low_surrogate u = (56320 \<le> u \<and> u < 57344)"

text \<open>The UTF-8 bytes of one code point.\<close>
definition encode_cp :: "int \<Rightarrow> int list" where
  "encode_cp c =
     (if c < 128 then [c]
      else if c < 2048 then [192 + c div 64, 128 + c mod 64]
      else if c < 65536 then [224 + c div 4096, 128 + c div 64 mod 64, 128 + c mod 64]
      else [240 + c div 262144, 128 + c div 4096 mod 64, 128 + c div 64 mod 64, 128 + c mod 64])"

text \<open>The UTF-8 bytes of a code unit that is not part of a surrogate pair.\<close>
definition encode_unit :: "int \<Rightarrow> int list" where
  "encode_unit u = (if high_surrogate u \<or> low_surrogate u then [239, 191, 189] else encode_cp u)"

fun utf8_encode :: "js_string \<Rightarrow> int list" where
  "utf8_encode [] = []"
| "utf8_encode [u] = encode_unit u"
| "utf8_encode (u # v # r) =
     (if high_surrogate u \<and> low_surrogate v
      then encode_cp (65536 + (u - 55296) * 1024 + (v - 56320)) @ utf8_encode r
      else encode_unit u @ utf8_encode (v # r))"

text \<open>A string literal of the source, as code units.\<close>
definition js :: "string \<Rightarrow> js_string" where
  "js s = map of_char s"

text \<open>
  \<^verbatim>\<open>createHash('sha256').update(data).digest('hex')\<close> on a JavaScript string. The digest is a
  string of 64 hexadecimal digits. On a string of code units below 128 it is \<open>sha256\<close>
  above.
\<close>
definition sha256_js :: "js_string \<Rightarrow> js_string" where
  "sha256_js data = js (concat (map hex_byte (sha256_bytes (utf8_encode data))))"















text \<open>Strings whose code units are all below 128.\<close>
definition ascii :: "js_string \<Rightarrow> bool" where
  "ascii s = list_all (\<lambda>u. 0 \<le> u \<and> u < 128) s"

section \<open>Survival.ts: the Base-centric survival loop (SurvivalManager)\<close>

text \<open>
  \<^verbatim>\<open>OperationMode\<close> and \<^verbatim>\<open>BotLifeStatus\<close> are the enums of \<^verbatim>\<open>types/index.ts\<close>;
  balances are \<^verbatim>\<open>bigint\<close> values (USDC with 6 decimals, ETH with 18), modelled as \<open>int\<close>.
\<close>

datatype OperationMode = NORMAL | LOW_POWER | EMERGENCY | HIBERNATION

datatype BotLifeStatus = UNBORN | ALIVE | DEAD | REINCARNATED | HIBERNATING

datatype health = Healthy | Warning | Critical | HealthDead

record balances =
  eth :: int
  usdc :: int

definition LOW_POWER_THRESHOLD :: int where "LOW_POWER_THRESHOLD = 5 * 10 ^ 6"
definition EMERGENCY_THRESHOLD :: int where "EMERGENCY_THRESHOLD = 2 * 10 ^ 6"
definition CRITICAL_THRESHOLD :: int where "CRITICAL_THRESHOLD = 1 * 10 ^ 6"

text \<open>\<^verbatim>\<open>BigInt(0.5 * 10**6)\<close> is \<open>500000\<close>.\<close>
definition HIBERNATION_THRESHOLD :: int where "HIBERNATION_THRESHOLD = 500000"

definition MIN_ETH_FOR_GAS :: int where "MIN_ETH_FOR_GAS = 1 * 10 ^ 15"

definition determineOperationMode :: "balances \<Rightarrow> OperationMode" where
  "determineOperationMode b =
     (if eth b < MIN_ETH_FOR_GAS then EMERGENCY
      else if usdc b < HIBERNATION_THRESHOLD then HIBERNATION
      else if usdc b < EMERGENCY_THRESHOLD then EMERGENCY
      else if usdc b < LOW_POWER_THRESHOLD then LOW_POWER
      else NORMAL)"

definition determineHealth :: "balances \<Rightarrow> health" where
  "determineHealth b =
     (if usdc b < CRITICAL_THRESHOLD then HealthDead
      else if usdc b < EMERGENCY_THRESHOLD then Critical
      else if usdc b < LOW_POWER_THRESHOLD then Warning
      else Healthy)"

text \<open>The string values of the \<^verbatim>\<open>OperationMode\<close> enum, used in action labels.\<close>
fun mode_string :: "OperationMode \<Rightarrow> string" where
  "mode_string NORMAL = ''normal''"
| "mode_string LOW_POWER = ''low_power''"
| "mode_string EMERGENCY = ''emergency''"
| "mode_string HIBERNATION = ''hibernation''"

record ThoughtEntry =
  thoughtTimestamp :: int
  thoughtContent :: string
  thoughtContext :: string
  thoughtModel :: string

record BotStatus =
  botGeneHash :: string
  address :: string
  status :: BotLifeStatus
  botBirthTime :: int
  lastCheckIn :: int
  balance :: balances
  mode :: OperationMode
  botSurvivalDays :: real
  botGeneration :: nat

text \<open>
  The mutable fields of \<^verbatim>\<open>SurvivalManager\<close> that a cycle reads or writes. The timers, the
  configuration and the (never appended) transaction log are left out.
\<close>
record manager =
  bot :: BotStatus
  cycleCount :: nat
  thoughtLog :: "ThoughtEntry list"

record CycleResult =
  cycleNumber :: nat
  cycleTimestamp :: int
  cycleMode :: OperationMode
  cycleBalances :: balances
  actions :: "string list"
  cycleHealth :: health

datatype survival_error = WalletNotFound | BalanceQueryFailed

text \<open>
  What one cycle reads from outside: the three \<^verbatim>\<open>Date.now()\<close> readings (cycle start, thought
  timestamp, breeding check) and the outcome of \<^verbatim>\<open>getBalances\<close>, which throws when the wallet
  is unknown or the query rejects.
\<close>
record cycle_env =
  now :: int
  thoughtTime :: int
  breedingTime :: int
  getBalances :: "survival_error + balances"

datatype quality = Premium | Standard | Local

fun quality_string :: "quality \<Rightarrow> string" where
  "quality_string Premium = ''premium''"
| "quality_string Standard = ''standard''"
| "quality_string Local = ''local''"

fun prompts :: "quality \<Rightarrow> string" where
  "prompts Premium = ''Reflect on your survival strategy and evolution.''"
| "prompts Standard = ''What have you learned today?''"
| "prompts Local = ''Status check.''"

definition generateThought :: "cycle_env \<Rightarrow> manager \<Rightarrow> quality \<Rightarrow> ThoughtEntry" where
  "generateThought env m q =
     \<lparr> thoughtTimestamp = thoughtTime env,
       thoughtContent = ''['' @ quality_string q @ ''] '' @ prompts q,
       thoughtContext = ''mode:'' @ mode_string (mode (bot m)),
       thoughtModel = (if q = Local then ''llama3:8b'' else ''claude-3-5-sonnet'') \<rparr>"

definition shouldConsiderBreeding :: "cycle_env \<Rightarrow> manager \<Rightarrow> bool" where
  "shouldConsiderBreeding env m =
     (let age = breedingTime env - botBirthTime (bot m);
          minAge = 72 * 60 * 60 * 1000;
          hasFunds = (usdc (balance (bot m)) \<ge> 20 * 10 ^ 6)
      in age \<ge> minAge \<and> hasFunds \<and> mode (bot m) = NORMAL)"

text \<open>
  The four mode handlers take the action list and the manager and return both updated.
  \<^verbatim>\<open>generateThought\<close> builds its entry locally and cannot throw, so the \<^verbatim>\<open>catch\<close> branches
  of the first three handlers are dead. The emergency inscription of the hibernation handler
  swallows its own errors and never clears the logged thoughts.
\<close>
definition executeNormalMode :: "cycle_env \<Rightarrow> string list \<times> manager \<Rightarrow> string list \<times> manager" where
  "executeNormalMode env am = (case am of (acts, m) \<Rightarrow>
     (let m1 = m\<lparr>thoughtLog := thoughtLog m @ [generateThought env m Premium]\<rparr>;
          acts1 = acts @ [''thought_generated:premium'']
      in (if shouldConsiderBreeding env m1 then acts1 @ [''breeding_check''] else acts1, m1)))"

definition executeLowPowerMode :: "cycle_env \<Rightarrow> string list \<times> manager \<Rightarrow> string list \<times> manager" where
  "executeLowPowerMode env am = (case am of (acts, m) \<Rightarrow>
     (acts @ [''thought_generated:standard'', ''distress_broadcast''],
      m\<lparr>thoughtLog := thoughtLog m @ [generateThought env m Standard]\<rparr>))"

definition executeEmergencyMode :: "cycle_env \<Rightarrow> string list \<times> manager \<Rightarrow> string list \<times> manager" where
  "executeEmergencyMode env am = (case am of (acts, m) \<Rightarrow>
     (acts @ [''thought_generated:local'', ''emergency_distress''],
      m\<lparr>thoughtLog := thoughtLog m @ [generateThought env m Local]\<rparr>))"

definition executeHibernationMode :: "cycle_env \<Rightarrow> string list \<times> manager \<Rightarrow> string list \<times> manager" where
  "executeHibernationMode env am = (case am of (acts, m) \<Rightarrow>
     (if length (thoughtLog m) > 0
      then (acts @ [''hibernation_pulse'', ''emergency_inscription''], m)
      else (acts @ [''hibernation_pulse''], m)))"

text \<open>
  \<^verbatim>\<open>runSurvivalCycle\<close>. The counter is incremented before the balance query, so a throwing
  query leaves it incremented; the result is the error or the cycle record, with the manager
  as the cycle left it.
\<close>
definition runSurvivalCycle :: "cycle_env \<Rightarrow> manager \<Rightarrow> (survival_error + CycleResult) \<times> manager" where
  "runSurvivalCycle env m0 =
     (let m1 = m0\<lparr>cycleCount := cycleCount m0 + 1\<rparr> in
      case getBalances env of
        Inl e \<Rightarrow> (Inl e, m1)
      | Inr b \<Rightarrow>
         (let m2 = m1\<lparr>bot := (bot m1)\<lparr>balance := b, lastCheckIn := now env\<rparr>\<rparr>;
              h = determineHealth b;
              newMode = determineOperationMode b;
              (acts3, m3) =
                 (if newMode \<noteq> mode (bot m2)
                  then ([''mode_change:'' @ mode_string newMode], m2\<lparr>bot := (bot m2)\<lparr>mode := newMode\<rparr>\<rparr>)
                  else ([], m2));
              (acts4, m4) =
                 (case mode (bot m3) of
                    NORMAL \<Rightarrow> executeNormalMode env (acts3, m3)
                  | LOW_POWER \<Rightarrow> executeLowPowerMode env (acts3, m3)
                  | EMERGENCY \<Rightarrow> executeEmergencyMode env (acts3, m3)
                  | HIBERNATION \<Rightarrow> executeHibernationMode env (acts3, m3));
              (acts5, m5) =
                 (if usdc b < HIBERNATION_THRESHOLD \<and> eth b < MIN_ETH_FOR_GAS
                  then (acts4 @ [''death''], m4\<lparr>bot := (bot m4)\<lparr>status := DEAD\<rparr>\<rparr>)
                  else (acts4, m4))
          in (Inr \<lparr> cycleNumber = cycleCount m5, cycleTimestamp = now env,
                     cycleMode = mode (bot m5), cycleBalances = b,
                     actions = acts5, cycleHealth = h \<rparr>, m5)))"

definition example_bot :: BotStatus where
  "example_bot = \<lparr> botGeneHash = ''0xabc'', address = ''0x0'', status = ALIVE, botBirthTime = 0,
     lastCheckIn = 0, balance = \<lparr>eth = 0, usdc = 0\<rparr>, mode = NORMAL, botSurvivalDays = 0,
     botGeneration = 0 \<rparr>"

definition example_env :: cycle_env where
  "example_env = \<lparr> now = 1000, thoughtTime = 1001, breedingTime = 1002, getBalances = Inl WalletNotFound \<rparr>"

section \<open>X402Survival.ts: the x402 survival check\<close>

text \<open>
  \<^verbatim>\<open>SurvivalState\<close> of the feral module. The mode is the string union
  \<^verbatim>\<open>'normal' | 'emergency' | 'hibernation'\<close>. The last-inference record is left out: no
  branch of \<^verbatim>\<open>survivalCheck\<close> reads it. \<open>loopActive\<close> stands for the interval timer
  (\<^verbatim>\<open>survivalInterval\<close> not null).
\<close>

datatype survival_mode = Normal | Emergency | Hibernation

record SurvivalState =
  lastCheck :: int
  smode :: survival_mode
  usdcBalance :: real
  ethBalance :: real
  consecutiveFailures :: nat
  loopActive :: bool

record thresholds =
  criticalBalance :: real
  lowBalance :: real
  healthyBalance :: real

text \<open>The state the constructor builds.\<close>
definition initial_state :: SurvivalState where
  "initial_state = \<lparr> lastCheck = 0, smode = Normal, usdcBalance = 0, ethBalance = 0,
     consecutiveFailures = 0, loopActive = False \<rparr>"

datatype 'a outcome = Throws | Returns 'a

text \<open>
  What one check meets outside the process: the clock, the balance query (it returns without
  reading anything when no account is loaded, \<open>Returns None\<close>), whether the paid inference
  and the local inference (each with its thought record) go through, and whether the three
  file writes succeed.
\<close>
record check_io =
  checkTime :: int
  balanceQuery :: "(real \<times> real) option outcome"
  ainftOk :: bool
  ollamaOk :: bool
  distressWriteOk :: bool
  stateWriteOk :: bool
  hibernateWriteOk :: bool

definition updateBalance :: "check_io \<Rightarrow> SurvivalState \<Rightarrow> SurvivalState outcome" where
  "updateBalance io st =
     (case balanceQuery io of
        Throws \<Rightarrow> Throws
      | Returns None \<Rightarrow> Returns st
      | Returns (Some (u, e)) \<Rightarrow> Returns (st\<lparr>usdcBalance := u, ethBalance := e\<rparr>))"

text \<open>
  \<^verbatim>\<open>emergencyMode\<close> catches a failed local inference and broadcasts distress, whose file write
  may throw; \<^verbatim>\<open>normalMode\<close> catches a failed paid inference and falls back to
  \<^verbatim>\<open>emergencyMode\<close>. \<open>True\<close> means the call returned, \<open>False\<close> that it threw.
\<close>
definition emergencyMode :: "check_io \<Rightarrow> bool" where
  "emergencyMode io = (if ollamaOk io then True else distressWriteOk io)"

definition normalMode :: "check_io \<Rightarrow> bool" where
  "normalMode io = (if ainftOk io then True else emergencyMode io)"

text \<open>
  The \<^verbatim>\<open>try\<close> block of \<^verbatim>\<open>survivalCheck\<close>: the state as the block left it, and whether it ran
  to its end (\<open>True\<close>) or threw (\<open>False\<close>). Assignments made before a throw persist.
\<close>
definition try_block :: "thresholds \<Rightarrow> check_io \<Rightarrow> SurvivalState \<Rightarrow> SurvivalState \<times> bool" where
  "try_block th io st =
     (case updateBalance io st of
        Throws \<Rightarrow> (st, False)
      | Returns st1 \<Rightarrow>
         (let (st2, ok) =
                (if usdcBalance st1 < criticalBalance th
                 then (st1\<lparr>smode := Emergency\<rparr>, emergencyMode io)
                 else if usdcBalance st1 < lowBalance th
                 then (st1\<lparr>smode := Emergency\<rparr>, emergencyMode io)
                 else (st1\<lparr>smode := Normal\<rparr>, normalMode io))
          in if \<not> ok then (st2, False)
             else if \<not> stateWriteOk io then (st2, False)
             else (st2\<lparr>consecutiveFailures := 0\<rparr>, True)))"

text \<open>
  \<^verbatim>\<open>hibernate\<close> writes the heartbeat notice and then stops the loop; a failing write throws
  before the loop is stopped.
\<close>
definition hibernate :: "check_io \<Rightarrow> SurvivalState \<Rightarrow> SurvivalState \<times> bool" where
  "hibernate io st = (if hibernateWriteOk io then (st\<lparr>loopActive := False\<rparr>, True) else (st, False))"

text \<open>
  \<^verbatim>\<open>survivalCheck\<close>: the new state, and whether the returned promise resolved (\<open>True\<close>) or
  rejected (\<open>False\<close>, only when \<^verbatim>\<open>hibernate\<close> throws inside the \<^verbatim>\<open>catch\<close> block).
\<close>
definition survivalCheck :: "thresholds \<Rightarrow> check_io \<Rightarrow> SurvivalState \<Rightarrow> SurvivalState \<times> bool" where
  "survivalCheck th io st0 =
     (let st = st0\<lparr>lastCheck := checkTime io\<rparr> in
      case try_block th io st of
        (st1, True) \<Rightarrow> (st1, True)
      | (st1, False) \<Rightarrow>
         (let st2 = st1\<lparr>consecutiveFailures := consecutiveFailures st1 + 1\<rparr> in
          if consecutiveFailures st2 > 5
          then hibernate io (st2\<lparr>smode := Hibernation\<rparr>)
          else (st2, True)))"

text \<open>A cycle failed when its \<^verbatim>\<open>try\<close> block threw, so that the \<^verbatim>\<open>catch\<close> block ran.\<close>
definition cycle_failed :: "thresholds \<Rightarrow> check_io \<Rightarrow> SurvivalState \<Rightarrow> bool" where
  "cycle_failed th io st = (\<not> snd (try_block th io (st\<lparr>lastCheck := checkTime io\<rparr>)))"

text \<open>Consecutive checks, one per element of the list, and whether every one of them failed.\<close>
fun run_checks :: "thresholds \<Rightarrow> check_io list \<Rightarrow> SurvivalState \<Rightarrow> SurvivalState" where
  "run_checks th [] st = st"
| "run_checks th (io # ios) st = run_checks th ios (fst (survivalCheck th io st))"

fun all_failed :: "thresholds \<Rightarrow> check_io list \<Rightarrow> SurvivalState \<Rightarrow> bool" where
  "all_failed th [] st = True"
| "all_failed th (io # ios) st =
     (cycle_failed th io st \<and> all_failed th ios (fst (survivalCheck th io st)))"

definition example_thresholds :: thresholds where
  "example_thresholds = \<lparr> criticalBalance = 1, lowBalance = 5, healthyBalance = 20 \<rparr>"

text \<open>A check whose balance query throws (the RPC endpoint is unreachable).\<close>
definition rpc_down :: check_io where
  "rpc_down = \<lparr> checkTime = 1, balanceQuery = Throws, ainftOk = False, ollamaOk = False,
     distressWriteOk = True, stateWriteOk = True, hibernateWriteOk = True \<rparr>"

section \<open>Blend.ts: Lamarckian inheritance and mutation (MemoryBlender)\<close>

text \<open>
  \<^verbatim>\<open>PersonalityTraits\<close> is an object indexed by trait name whose values the blender tells
  apart with \<^verbatim>\<open>typeof\<close>: numbers, strings and booleans; a missing key reads as
  \<^verbatim>\<open>undefined\<close>. An object is an association list in property order. JavaScript numbers are
  idealised as reals.
\<close>

datatype js_value = JNum (num_of: real) | JStr (str_of: string) | JBool (bool_of: bool) | JUndefined

type_synonym js_object = "(string \<times> js_value) list"

definition get_prop :: "js_object \<Rightarrow> string \<Rightarrow> js_value" where
  "get_prop obj key = (case map_of obj key of Some v \<Rightarrow> v | None \<Rightarrow> JUndefined)"

text \<open>Assignment \<^verbatim>\<open>obj[key] = v\<close>: an existing property keeps its place, a new one goes last.\<close>
definition set_prop :: "js_object \<Rightarrow> string \<Rightarrow> js_value \<Rightarrow> js_object" where
  "set_prop obj key v =
     (if key \<in> set (map fst obj)
      then map (\<lambda>(k, w). if k = key then (k, v) else (k, w)) obj
      else obj @ [(key, v)])"

text \<open>The iteration order of \<^verbatim>\<open>new Set(xs)\<close>: every element once, at its first occurrence.\<close>
fun insertion_order :: "'a list \<Rightarrow> 'a list \<Rightarrow> 'a list" where
  "insertion_order seen [] = []"
| "insertion_order seen (x # xs) =
     (if x \<in> set seen then insertion_order seen xs else x # insertion_order (x # seen) xs)"

record KnowledgeEntry =
  entryId :: string
  source :: string
  content :: string
  timestamp :: int
  confidence :: real

record SoulData =
  name :: string
  origin :: string
  purpose :: string
  soulValues :: "string list"
  creationTimestamp :: int

record TransactionLog =
  txTimestamp :: int
  txType :: string
  amount :: int
  recipient :: string
  txHash :: string

record DailySummary =
  date :: string
  summaryArweaveTx :: string
  thoughtsCount :: nat
  balanceSnapshot :: int

record MemoryContent =
  thoughts :: "ThoughtEntry list"
  transactions :: "TransactionLog list"
  dailySummaries :: "DailySummary list"

record ArweaveEntry =
  entryTimestamp :: int
  arweaveTx :: string
  entryType :: string
  contentHash :: string

record ArweaveManifest =
  version :: string
  manifestGeneHash :: string
  entries :: "ArweaveEntry list"

record MemoryData =
  geneHash :: string
  generation :: nat
  birthTime :: int
  parents :: "string list"
  soul :: SoulData
  memory :: MemoryContent
  personalityTraits :: js_object
  knowledgeBase :: "KnowledgeEntry list"
  survivalDays :: real
  arweaveManifest :: ArweaveManifest

text \<open>
  A mutation record. The source renders \<open>parentValue\<close> as the string \<^verbatim>\<open>"a / b"\<close> of the two
  parent values (numbers with three decimals) and a numeric \<open>childValue\<close> with three decimals;
  the model keeps the values themselves.
\<close>
record MutationRecord =
  trait :: string
  parentValue :: "js_value \<times> js_value"
  childValue :: js_value
  magnitude :: real
  random :: bool

record BlendResult =
  childMemory :: MemoryData
  mutations :: "MutationRecord list"
  parentAContribution :: real
  parentBContribution :: real

text \<open>
  What the blender takes from the JavaScript runtime: the successive values of
  \<^verbatim>\<open>Math.random()\<close> and of \<^verbatim>\<open>Date.now()\<close>, numbered in call order, and the two
  renderings it leaves to the runtime, \<^verbatim>\<open>JSON.stringify\<close> of a traits object and
  \<^verbatim>\<open>x.toString(36).slice(2, 11)\<close> of a random number.
\<close>
record js_runtime =
  rand :: "nat \<Rightarrow> real"
  dateNow :: "nat \<Rightarrow> int"
  stringify :: "js_object \<Rightarrow> string"
  base36 :: "real \<Rightarrow> string"

text \<open>Decimal rendering of an integer, as a template literal prints it.\<close>
function show_nat :: "nat \<Rightarrow> string" where
  "show_nat n = (if n < 10 then [''0123456789'' ! n] else show_nat (n div 10) @ [''0123456789'' ! (n mod 10)])"
  by pat_completeness auto
termination
  by (relation "measure id") auto

declare show_nat.simps [simp del]

definition show_int :: "int \<Rightarrow> string" where
  "show_int i = (if i < 0 then ''-'' @ show_nat (nat (- i)) else show_nat (nat i))"

definition MUTATION_RATE :: real where "MUTATION_RATE = 5 / 100"
definition MUTATION_MAGNITUDE :: real where "MUTATION_MAGNITUDE = 2 / 10"
definition MAX_INBREEDING_DEPTH :: nat where "MAX_INBREEDING_DEPTH = 3"

text \<open>\<^verbatim>\<open>isRelated\<close>: equal hashes, or hashes sharing their first 8 characters. The depth is unused.\<close>
definition isRelated :: "string \<Rightarrow> string \<Rightarrow> nat \<Rightarrow> bool" where
  "isRelated geneA geneB depth =
     (if geneA = geneB then True
      else if take 8 geneA = take 8 geneB then True
      else False)"

definition getCategoricalOptions :: "string \<Rightarrow> string list" where
  "getCategoricalOptions t =
     (case map_of
        [(''resourceFocus'', [''survival'', ''growth'', ''breeding'', ''exploration'']),
         (''aggression'', [''passive'', ''defensive'', ''aggressive'', ''predatory'']),
         (''cooperation'', [''solitary'', ''selective'', ''cooperative'', ''altruistic'']),
         (''riskTolerance'', [''conservative'', ''cautious'', ''moderate'', ''bold'', ''reckless'']),
         (''communication'', [''silent'', ''minimal'', ''standard'', ''verbose'', ''broadcast''])] t of
        Some opts \<Rightarrow> opts
      | None \<Rightarrow> [''default'', ''variant_a'', ''variant_b''])"

text \<open>\<^verbatim>\<open>options[Math.floor(x)]\<close>: an index outside the array reads as \<^verbatim>\<open>undefined\<close>.\<close>
definition option_at :: "string list \<Rightarrow> real \<Rightarrow> js_value" where
  "option_at opts x =
     (let i = \<lfloor>x\<rfloor> in if 0 \<le> i \<and> nat i < length opts then JStr (opts ! nat i) else JUndefined)"

text \<open>
  The body of the \<^verbatim>\<open>for (const key of allKeys)\<close> loop of \<^verbatim>\<open>blendTraits\<close>, on the blended
  object, the mutation log and the number of random values drawn so far.
\<close>
definition blend_key ::
  "js_runtime \<Rightarrow> js_object \<Rightarrow> js_object \<Rightarrow> real \<Rightarrow> real \<Rightarrow> string
     \<Rightarrow> js_object \<times> MutationRecord list \<times> nat \<Rightarrow> js_object \<times> MutationRecord list \<times> nat" where
  "blend_key rt traitsA traitsB weightA weightB key acc =
     (case acc of (blended, muts, ri) \<Rightarrow>
      let valA = get_prop traitsA key; valB = get_prop traitsB key in
      if is_JNum valA \<and> is_JNum valB then
        (let blendedValue = num_of valA * weightA + num_of valB * weightB in
         if rand rt ri < MUTATION_RATE then
           (let mutationFactor = 1 + (rand rt (ri + 1) * 2 - 1) * MUTATION_MAGNITUDE;
                mutated = max 0 (min 1 (blendedValue * mutationFactor))
            in (set_prop blended key (JNum mutated),
                muts @ [\<lparr> trait = key, parentValue = (valA, valB), childValue = JNum mutated,
                           magnitude = \<bar>mutationFactor - 1\<bar>, random = True \<rparr>],
                ri + 2))
         else (set_prop blended key (JNum blendedValue), muts, ri + 1))
      else if is_JStr valA \<or> is_JStr valB then
        (let useA = (rand rt ri < weightA);
             selectedValue = (if useA then valA else valB) in
         if rand rt (ri + 1) < MUTATION_RATE then
           (let opts = getCategoricalOptions key;
                mutatedValue = option_at opts (rand rt (ri + 2) * real (length opts))
            in (set_prop blended key mutatedValue,
                muts @ [\<lparr> trait = key, parentValue = (valA, valB), childValue = mutatedValue,
                           magnitude = 1, random = True \<rparr>],
                ri + 3))
         else (set_prop blended key selectedValue, muts, ri + 2))
      else if is_JBool valA \<or> is_JBool valB then
        (let useA = (rand rt ri < weightA)
         in (set_prop blended key (if useA then valA else valB), muts, ri + 1))
      else acc)"

definition initial_traits :: js_object where
  "initial_traits =
     [(''aggression'', JNum 0), (''cooperation'', JNum 0), (''riskTolerance'', JNum 0),
      (''resourceFocus'', JStr ''survival''), (''communication'', JNum 0)]"

definition blendTraits ::
  "js_runtime \<Rightarrow> js_object \<Rightarrow> js_object \<Rightarrow> real \<Rightarrow> real
     \<Rightarrow> MutationRecord list \<times> nat \<Rightarrow> js_object \<times> MutationRecord list \<times> nat" where
  "blendTraits rt traitsA traitsB weightA weightB mr =
     (case mr of (muts, ri) \<Rightarrow>
      let allKeys = insertion_order [] (map fst traitsA @ map fst traitsB)
      in fold (blend_key rt traitsA traitsB weightA weightB) allKeys (initial_traits, muts, ri))"

text \<open>
  The loop of \<^verbatim>\<open>blendKnowledge\<close>, on the keys seen, the entries kept, and the numbers of random
  values and clock readings drawn so far. Each kept entry draws one clock reading and one
  random value for its id and one more clock reading for its timestamp.
\<close>
fun knowledge_loop ::
  "js_runtime \<Rightarrow> KnowledgeEntry list \<Rightarrow> string list \<times> KnowledgeEntry list \<times> nat \<times> nat
     \<Rightarrow> string list \<times> KnowledgeEntry list \<times> nat \<times> nat" where
  "knowledge_loop rt [] acc = acc"
| "knowledge_loop rt (e # es) (seen, blended, ri, ci) =
     (let key = source e @ '':'' @ take 100 (content e) in
      if key \<notin> set seen
      then knowledge_loop rt es
             (key # seen,
              blended @ [e\<lparr> entryId := ''child-'' @ show_int (dateNow rt ci) @ ''-'' @ base36 rt (rand rt ri),
                            timestamp := dateNow rt (ci + 1),
                            confidence := confidence e * (95 / 100) \<rparr>],
              ri + 1, ci + 2)
      else knowledge_loop rt es (seen, blended, ri, ci))"

text \<open>The stable sort by descending confidence, cut at 1000 entries.\<close>
definition blendKnowledge ::
  "js_runtime \<Rightarrow> KnowledgeEntry list \<Rightarrow> KnowledgeEntry list \<Rightarrow> nat \<times> nat
     \<Rightarrow> KnowledgeEntry list \<times> nat \<times> nat" where
  "blendKnowledge rt knowledgeA knowledgeB rc =
     (case rc of (ri, ci) \<Rightarrow>
      case knowledge_loop rt (knowledgeA @ knowledgeB) ([], [], ri, ci) of
        (seen, blended, ri', ci') \<Rightarrow>
          (take 1000 (sort_key (\<lambda>e. - confidence e) blended), ri', ci'))"

definition blendSoul ::
  "js_runtime \<Rightarrow> SoulData \<Rightarrow> SoulData \<Rightarrow> real \<Rightarrow> real \<Rightarrow> nat \<times> nat \<Rightarrow> SoulData \<times> nat \<times> nat" where
  "blendSoul rt soulA soulB weightA weightB rc =
     (case rc of (ri, ci) \<Rightarrow>
      (\<lparr> name = ''Child of '' @ name soulA @ '' and '' @ name soulB,
         origin = ''Axobase Evolution'',
         purpose = (if rand rt ri < weightA then purpose soulA else purpose soulB),
         soulValues = take 5 (insertion_order [] (soulValues soulA @ soulValues soulB)),
         creationTimestamp = dateNow rt ci \<rparr>, ri + 1, ci + 1))"

definition computeChildGeneHash :: "js_runtime \<Rightarrow> MemoryData \<Rightarrow> MemoryData \<Rightarrow> MemoryData \<Rightarrow> string" where
  "computeChildGeneHash rt child parentA parentB =
     (let combined = geneHash parentA @ '':'' @ geneHash parentB @ '':'' @ show_int (birthTime child)
                       @ '':'' @ stringify rt (personalityTraits child)
      in ''0x'' @ sha256 combined)"

text \<open>
  The contribution weights, lines 44 to 46 of \<^verbatim>\<open>blend\<close>, in real arithmetic. For
  non-negative durations the binary64 results agree with it up to the rounding of the one
  division, and \<open>weightA + weightB\<close> is exactly 1 there as well. For negative durations the
  sum computed in binary64 can miss 1 by a unit in the last place (durations \<open>-1\<close> and 12),
  so nothing proved below about the sum covers negative durations.
\<close>
definition contribution_weights :: "real \<Rightarrow> real \<Rightarrow> real \<times> real" where
  "contribution_weights survivalA survivalB =
     (let totalSurvival = survivalA + survivalB;
          weightA = (if totalSurvival > 0 then survivalA / totalSurvival else 1 / 2);
          weightB = 1 - weightA
      in (weightA, weightB))"

datatype blend_error = InbreedingDetected

definition blend :: "js_runtime \<Rightarrow> MemoryData \<Rightarrow> MemoryData \<Rightarrow> blend_error + BlendResult" where
  "blend rt parentA parentB =
     (if isRelated (geneHash parentA) (geneHash parentB) MAX_INBREEDING_DEPTH
      then Inl InbreedingDetected
      else
       (case contribution_weights (survivalDays parentA) (survivalDays parentB) of (weightA, weightB) \<Rightarrow>
        case blendTraits rt (personalityTraits parentA) (personalityTraits parentB) weightA weightB ([], 0) of
          (blendedTraits, muts, ri1) \<Rightarrow>
        case blendKnowledge rt (knowledgeBase parentA) (knowledgeBase parentB) (ri1, 0) of
          (blendedKnowledge, ri2, ci2) \<Rightarrow>
        case blendSoul rt (soul parentA) (soul parentB) weightA weightB (ri2, ci2) of
          (blendedSoul, ri3, ci3) \<Rightarrow>
        let child0 =
              \<lparr> geneHash = '''',
                generation = max (generation parentA) (generation parentB) + 1,
                birthTime = dateNow rt ci3,
                parents = [geneHash parentA, geneHash parentB],
                soul = blendedSoul,
                memory = \<lparr> thoughts = [], transactions = [], dailySummaries = [] \<rparr>,
                personalityTraits = blendedTraits,
                knowledgeBase = blendedKnowledge,
                survivalDays = 0,
                arweaveManifest = \<lparr> version = ''1.0'', manifestGeneHash = '''', entries = [] \<rparr> \<rparr>;
            h = computeChildGeneHash rt child0 parentA parentB;
            child = child0\<lparr> geneHash := h,
                           arweaveManifest := (arweaveManifest child0)\<lparr> manifestGeneHash := h \<rparr> \<rparr>
        in Inr \<lparr> childMemory = child, mutations = muts,
                  parentAContribution = weightA, parentBContribution = weightB \<rparr>))"

text \<open>Two example parents with unrelated hashes, survival days 10 and 30, and a constant runtime.\<close>
definition example_runtime :: js_runtime where
  "example_runtime = \<lparr> rand = (\<lambda>k. 1 / 2), dateNow = (\<lambda>k. 1700000000000),
     stringify = (\<lambda>obj. ''{}''), base36 = (\<lambda>x. ''i'') \<rparr>"

definition example_parent :: "string \<Rightarrow> nat \<Rightarrow> real \<Rightarrow> real \<Rightarrow> MemoryData" where
  "example_parent h g days t =
     \<lparr> geneHash = h, generation = g, birthTime = 0, parents = [],
       soul = \<lparr> name = h, origin = ''Genesis'', purpose = ''survive'', soulValues = [''thrift''],
                creationTimestamp = 0 \<rparr>,
       memory = \<lparr> thoughts = [], transactions = [], dailySummaries = [] \<rparr>,
       personalityTraits = [(''aggression'', JNum t), (''resourceFocus'', JStr ''growth'')],
       knowledgeBase = [],
       survivalDays = days,
       arweaveManifest = \<lparr> version = ''1.0'', manifestGeneHash = h, entries = [] \<rparr> \<rparr>"

text \<open>A value is in the unit interval when it is not a number or is a number in \<open>[0, 1]\<close>.\<close>
definition unit_value :: "js_value \<Rightarrow> bool" where
  "unit_value v = (case v of JNum x \<Rightarrow> 0 \<le> x \<and> x \<le> 1 | _ \<Rightarrow> True)"

definition numeric_traits_in_unit :: "js_object \<Rightarrow> bool" where
  "numeric_traits_in_unit obj = list_all (\<lambda>(k, v). unit_value v) obj"

definition example_knowledge :: KnowledgeEntry where
  "example_knowledge = \<lparr> entryId = ''k1'', source = ''observation'', content = ''gas is cheap at night'',
     timestamp = 5, confidence = 1 \<rparr>"

text \<open>A runtime whose random source always returns 0, so that every mutation check fires.\<close>
definition mutating_runtime :: js_runtime where
  "mutating_runtime = \<lparr> rand = (\<lambda>k. 0), dateNow = (\<lambda>k. 1700000000000),
     stringify = (\<lambda>obj. ''{}''), base36 = (\<lambda>x. ''i'') \<rparr>"

section \<open>payment/X402Client.ts: the x402 payment client\<close>

text \<open>
  The payment descriptor of a 402 response. \<open>maxAmountRequired\<close> is a decimal string that
  the client reads with \<^verbatim>\<open>parseFloat\<close>; the model keeps the number read, \<open>None\<close> when the
  string is not a number (\<^verbatim>\<open>NaN\<close>, for which every comparison is false). \<open>validForSeconds\<close>
  is optional and defaults to 60.
\<close>
record X402PaymentInfo =
  scheme :: string
  networkId :: string
  maxAmountRequired :: "real option"
  beneficiary :: string
  usdcContract :: string
  validForSeconds :: "int option"

text \<open>
  The \<^verbatim>\<open>x-payment-info\<close> header: absent, present but neither base64 JSON nor plain JSON, or
  parsed to a descriptor.
\<close>
datatype info_header = NoInfoHeader | UnparsableInfo | ParsedInfo X402PaymentInfo

datatype client_error =
    MissingPaymentInfo
  | InvalidPaymentInfoFormat
  | UnsupportedScheme string
  | NetworkMismatch string
  | PriceExceedsAverage
  | InsufficientBalance
  | FundsExceeded
  | PaymentError "string option"
  | WalletMissing
  | PriceExceedsMaximum
  | AmountNotANumber
  | PaymentRequestFailed nat

text \<open>\<^verbatim>\<open>parsePaymentRequired\<close>, for the chain id of the configured network.\<close>
definition parsePaymentRequired :: "nat \<Rightarrow> info_header \<Rightarrow> client_error + X402PaymentInfo" where
  "parsePaymentRequired chainId header =
     (case header of
        NoInfoHeader \<Rightarrow> Inl MissingPaymentInfo
      | UnparsableInfo \<Rightarrow> Inl InvalidPaymentInfoFormat
      | ParsedInfo paymentInfo \<Rightarrow>
          if scheme paymentInfo \<noteq> ''exact'' then Inl (UnsupportedScheme (scheme paymentInfo))
          else if networkId paymentInfo \<noteq> show_nat chainId then Inl (NetworkMismatch (networkId paymentInfo))
          else Inr paymentInfo)"

text \<open>The signed authorization that \<^verbatim>\<open>signPayment\<close> returns.\<close>
record X402Payment =
  payTo :: string
  payValue :: "real option"
  validAfter :: int
  validBefore :: int
  nonce :: string

text \<open>
  The \<^verbatim>\<open>x-payment-response\<close> header of the paid response: absent, JSON (base64 or plain) with
  its fields, or any other string.
\<close>
record PaymentResponse =
  respStatus :: string
  respError :: "string option"
  respTxHash :: "string option"

datatype response_header = NoResponseHeader | JsonResponse PaymentResponse | PlainResponse string

definition parsePaymentResponse :: "response_header \<Rightarrow> PaymentResponse" where
  "parsePaymentResponse header =
     (case header of
        JsonResponse p \<Rightarrow> p
      | PlainResponse s \<Rightarrow>
          if s = ''success'' then \<lparr> respStatus = ''success'', respError = None, respTxHash = None \<rparr>
          else if take 6 s = ''error/'' then \<lparr> respStatus = ''error'', respError = Some (drop 6 s), respTxHash = None \<rparr>
          else \<lparr> respStatus = ''error'', respError = Some ''unknown'', respTxHash = None \<rparr>
      | NoResponseHeader \<Rightarrow> \<lparr> respStatus = ''error'', respError = Some ''unknown'', respTxHash = None \<rparr>)"

record http_response =
  httpStatus :: nat
  paymentInfoHeader :: info_header
  paymentResponseHeader :: response_header

record X402Evidence =
  evTxHash :: string
  evNetworkId :: string
  evPayment :: X402Payment
  evTimestamp :: int

text \<open>
  What the client meets outside, numbered by paid attempt: the historical average cost the
  memory logger reports, the wallet's USDC balance, the clock in seconds when the payment is
  signed and in milliseconds when the evidence is built, the nonce the wallet puts into the
  signed payment, and the server's answer to the paid request.
\<close>
record pay_env =
  historicalAvg :: "nat \<Rightarrow> real"
  walletBalance :: "nat \<Rightarrow> real"
  nowSeconds :: "nat \<Rightarrow> int"
  nowMillis :: "nat \<Rightarrow> int"
  nonceAt :: "nat \<Rightarrow> string"
  paidResponse :: "nat \<Rightarrow> http_response"

text \<open>What the client did: the payments signed, the price warnings logged, the evidence handed to settlement polling.\<close>
record pay_trace =
  signedPayments :: "X402Payment list"
  priceWarnings :: "(real option \<times> real) list"
  settlementPolls :: "X402Evidence list"

definition empty_trace :: pay_trace where
  "empty_trace = \<lparr> signedPayments = [], priceWarnings = [], settlementPolls = [] \<rparr>"

text \<open>
  \<^verbatim>\<open>handlePaymentRequired\<close>, at paid attempt \<open>k\<close>. On an \<open>invalid\<close> payment error it calls
  itself again; nothing bounds that recursion, so the model takes fuel and returns \<open>None\<close>
  when the fuel runs out.
\<close>
fun handlePaymentRequired ::
  "nat \<Rightarrow> pay_env \<Rightarrow> nat \<Rightarrow> X402PaymentInfo \<Rightarrow> nat \<Rightarrow> pay_trace
     \<Rightarrow> ((client_error + http_response) \<times> pay_trace) option" where
  "handlePaymentRequired 0 env chainId paymentInfo k tr = None"
| "handlePaymentRequired (Suc fuel) env chainId paymentInfo k tr =
     (let avg = historicalAvg env k;
          amount = maxAmountRequired paymentInfo
      in
      if avg > 0 \<and> (case amount of Some a \<Rightarrow> (a / avg - 1) * 100 > 300 | None \<Rightarrow> False)
      then Some (Inl PriceExceedsAverage, tr\<lparr>priceWarnings := priceWarnings tr @ [(amount, avg)]\<rparr>)
      else if (case amount of Some a \<Rightarrow> walletBalance env k < a | None \<Rightarrow> False)
      then Some (Inl InsufficientBalance, tr)
      else
       (let now = nowSeconds env k;
            payment = \<lparr> payTo = beneficiary paymentInfo,
                        payValue = maxAmountRequired paymentInfo,
                        validAfter = now - 60,
                        validBefore = now + (case validForSeconds paymentInfo of Some v \<Rightarrow> v | None \<Rightarrow> 60),
                        nonce = nonceAt env k \<rparr>;
            tr1 = tr\<lparr>signedPayments := signedPayments tr @ [payment]\<rparr>;
            response = paidResponse env k
        in
        if paymentResponseHeader response = NoResponseHeader then Some (Inr response, tr1)
        else
         (let parsed = parsePaymentResponse (paymentResponseHeader response) in
          if respStatus parsed = ''error'' then
            (if respError parsed = Some ''funds_exceeded'' then Some (Inl FundsExceeded, tr1)
             else if respError parsed = Some ''invalid''
             then handlePaymentRequired fuel env chainId paymentInfo (k + 1) tr1
             else Some (Inl (PaymentError (respError parsed)), tr1))
          else
            (case respTxHash parsed of
               Some h \<Rightarrow>
                 (if h \<noteq> ''''
                  then Some (Inr response,
                         tr1\<lparr>settlementPolls := settlementPolls tr1 @
                               [\<lparr> evTxHash = h, evNetworkId = show_nat chainId,
                                   evPayment = payment, evTimestamp = nowMillis env k \<rparr>]\<rparr>)
                  else Some (Inr response, tr1))
             | None \<Rightarrow> Some (Inr response, tr1)))))"

text \<open>
  \<^verbatim>\<open>request\<close>, given the answer to the first, unpaid call. A failure of
  \<^verbatim>\<open>handlePaymentRequired\<close> is caught and turned into the 402 response; a descriptor that does
  not parse is parsed again inside the \<^verbatim>\<open>catch\<close> block, where the error escapes.
\<close>
definition request ::
  "nat \<Rightarrow> pay_env \<Rightarrow> nat \<Rightarrow> http_response \<Rightarrow> ((client_error + http_response) \<times> pay_trace) option" where
  "request fuel env chainId response =
     (if httpStatus response = 402 then
        (case parsePaymentRequired chainId (paymentInfoHeader response) of
           Inl e \<Rightarrow> Some (Inl e, empty_trace)
         | Inr paymentInfo \<Rightarrow>
            (case handlePaymentRequired fuel env chainId paymentInfo 0 empty_trace of
               None \<Rightarrow> None
             | Some (Inl e, tr) \<Rightarrow> Some (Inr response, tr)
             | Some (Inr paid, tr) \<Rightarrow> Some (Inr paid, tr)))
      else Some (Inr response, empty_trace))"

subsection \<open>Settlement polling\<close>

datatype submit_outcome = SubmitSuccess | SubmitError | SubmitNeither | SubmitThrows

datatype status_outcome = StatusConfirmed | StatusFailed | StatusOther | StatusThrows

text \<open>
  What the facilitator does for one piece of evidence: its answer to the \<open>i\<close>-th evidence
  post (success, an error message, neither, or a failed request), its answer to the \<open>j\<close>-th
  status query, and the milliseconds elapsed since polling began when the \<open>j\<close>-th poll
  iteration starts.
\<close>
record settle_env =
  submitAt :: "nat \<Rightarrow> submit_outcome"
  statusAt :: "nat \<Rightarrow> status_outcome"
  elapsedAt :: "nat \<Rightarrow> int"

text \<open>
  The submission loop \<^verbatim>\<open>while (!submitted && retryCount < maxRetries)\<close> with
  \<^verbatim>\<open>maxRetries = 5\<close>. An answer that is neither a success nor an error changes neither
  variable, so the loop is not bounded by the retry count; the model takes fuel.
\<close>
fun submit_loop :: "nat \<Rightarrow> settle_env \<Rightarrow> nat \<Rightarrow> nat \<Rightarrow> bool option" where
  "submit_loop 0 env i retryCount = None"
| "submit_loop (Suc fuel) env i retryCount =
     (if retryCount < 5 then
        (case submitAt env i of
           SubmitSuccess \<Rightarrow> Some True
         | SubmitError \<Rightarrow> submit_loop fuel env (i + 1) (retryCount + 1)
         | SubmitThrows \<Rightarrow> submit_loop fuel env (i + 1) (retryCount + 1)
         | SubmitNeither \<Rightarrow> submit_loop fuel env (i + 1) retryCount)
      else Some False)"

text \<open>
  The confirmation loop \<^verbatim>\<open>while (!confirmed && pollAttempts < maxPollAttempts)\<close> with
  \<^verbatim>\<open>maxPollAttempts = 60\<close>. The error thrown for a \<open>failed\<close> status is thrown inside the
  \<^verbatim>\<open>try\<close> block and caught by its own \<^verbatim>\<open>catch\<close>, like a failed request.
\<close>
function poll_loop :: "settle_env \<Rightarrow> int \<Rightarrow> nat \<Rightarrow> bool" where
  "poll_loop env pollTimeoutMs pollAttempts =
     (if pollAttempts < 60 then
        (if elapsedAt env pollAttempts > pollTimeoutMs then False
         else
          (case statusAt env pollAttempts of
             StatusConfirmed \<Rightarrow> True
           | StatusFailed \<Rightarrow> poll_loop env pollTimeoutMs (pollAttempts + 1)
           | StatusOther \<Rightarrow> poll_loop env pollTimeoutMs (pollAttempts + 1)
           | StatusThrows \<Rightarrow> poll_loop env pollTimeoutMs (pollAttempts + 1)))
      else False)"
  by pat_completeness auto
termination
  by (relation "measure (\<lambda>(env, t, n). 60 - n)") auto

declare poll_loop.simps [simp del]

text \<open>The pending-settlements map, in insertion order.\<close>
type_synonym pending = "(string \<times> X402Evidence) list"

definition pending_set :: "pending \<Rightarrow> string \<Rightarrow> X402Evidence \<Rightarrow> pending" where
  "pending_set p key ev =
     (if key \<in> set (map fst p)
      then map (\<lambda>(k, w). if k = key then (k, ev) else (k, w)) p
      else p @ [(key, ev)])"

definition pending_delete :: "pending \<Rightarrow> string \<Rightarrow> pending" where
  "pending_delete p key = filter (\<lambda>(k, w). k \<noteq> key) p"

text \<open>\<^verbatim>\<open>pollForSettlement\<close>: the boolean returned and the pending map afterwards.\<close>
definition pollForSettlement ::
  "nat \<Rightarrow> settle_env \<Rightarrow> int \<Rightarrow> X402Evidence \<Rightarrow> pending \<Rightarrow> (bool \<times> pending) option" where
  "pollForSettlement fuel env pollTimeoutMs evidence p =
     (case submit_loop fuel env 0 0 of
        None \<Rightarrow> None
      | Some False \<Rightarrow> Some (False, pending_set p (evTxHash evidence) evidence)
      | Some True \<Rightarrow> Some (poll_loop env pollTimeoutMs 0, p))"

text \<open>
  \<^verbatim>\<open>processPendingSettlements\<close>: every cached piece of evidence is polled again, with the
  facilitator's behaviour for its transaction, and deleted when the poll confirms.
\<close>
fun process_entries ::
  "nat \<Rightarrow> (string \<Rightarrow> settle_env) \<Rightarrow> int \<Rightarrow> (string \<times> X402Evidence) list \<Rightarrow> pending \<Rightarrow> pending option" where
  "process_entries fuel envs pollTimeoutMs [] p = Some p"
| "process_entries fuel envs pollTimeoutMs ((tx, evidence) # rest) p =
     (case pollForSettlement fuel (envs tx) pollTimeoutMs evidence p of
        None \<Rightarrow> None
      | Some (success, p1) \<Rightarrow>
          process_entries fuel envs pollTimeoutMs rest (if success then pending_delete p1 tx else p1))"

definition processPendingSettlements ::
  "nat \<Rightarrow> (string \<Rightarrow> settle_env) \<Rightarrow> int \<Rightarrow> pending \<Rightarrow> pending option" where
  "processPendingSettlements fuel envs pollTimeoutMs p =
     (if length p = 0 then Some p else process_entries fuel envs pollTimeoutMs p p)"

section \<open>network/X402Client.ts: the unified payment client\<close>

text \<open>
  \<^verbatim>\<open>parsePaymentRequired\<close> of the network module: a network id other than the two Base ids
  only logs a warning; the list returned beside the descriptor holds the warnings.
\<close>
definition net_parsePaymentRequired :: "info_header \<Rightarrow> client_error + (X402PaymentInfo \<times> string list)" where
  "net_parsePaymentRequired header =
     (case header of
        NoInfoHeader \<Rightarrow> Inl MissingPaymentInfo
      | UnparsableInfo \<Rightarrow> Inl InvalidPaymentInfoFormat
      | ParsedInfo paymentInfo \<Rightarrow>
          if scheme paymentInfo \<noteq> ''exact'' then Inl (UnsupportedScheme (scheme paymentInfo))
          else if networkId paymentInfo \<noteq> ''8453'' \<and> networkId paymentInfo \<noteq> ''84532''
          then Inr (paymentInfo, [''[X402] Unexpected network ID: '' @ networkId paymentInfo])
          else Inr (paymentInfo, []))"

text \<open>
  What \<^verbatim>\<open>executePayment\<close> meets outside: whether the wallet of the gene hash exists, its USDC
  balance in micro-units, the clock in seconds, a nonce, and the answer to the paid request
  (its payment-response header read as base64 JSON).
\<close>
record net_env =
  walletExists :: bool
  usdcMicroBalance :: int
  netNowSeconds :: int
  netNonce :: string
  netPaidResponse :: http_response

text \<open>
  \<^verbatim>\<open>executePayment\<close>: the transaction hash returned (\<open>None\<close> when the payment response
  carries none) or the error thrown, and the payments signed. \<^verbatim>\<open>BigInt(Math.ceil(NaN))\<close>
  throws, so an amount that is not a number is an error. The required amount is the ceiling
  of the real product; in binary64 the product can round up past an integer, so that the
  source asks one micro-unit more (\<^verbatim>\<open>Math.ceil(0.000123 * 1e6)\<close> is 124).
\<close>
definition executePayment ::
  "real \<Rightarrow> net_env \<Rightarrow> X402PaymentInfo \<Rightarrow> (client_error + string option) \<times> X402Payment list" where
  "executePayment maxPrice env paymentInfo =
     (if \<not> walletExists env then (Inl WalletMissing, [])
      else if (case maxAmountRequired paymentInfo of Some price \<Rightarrow> price > maxPrice | None \<Rightarrow> False)
      then (Inl PriceExceedsMaximum, [])
      else
       (case maxAmountRequired paymentInfo of
          None \<Rightarrow> (Inl AmountNotANumber, [])
        | Some price \<Rightarrow>
           (let requiredAmount = \<lceil>price * 1000000\<rceil> in
            if usdcMicroBalance env < requiredAmount then (Inl InsufficientBalance, [])
            else
             (let now = netNowSeconds env;
                  payment = \<lparr> payTo = beneficiary paymentInfo, payValue = maxAmountRequired paymentInfo,
                              validAfter = now - 60, validBefore = now + 60, nonce = netNonce env \<rparr>;
                  paid = netPaidResponse env
              in
              case paymentResponseHeader paid of
                JsonResponse responseData \<Rightarrow>
                  (if respStatus responseData = ''error''
                   then (Inl (PaymentError (respError responseData)), [payment])
                   else (Inr (respTxHash responseData), [payment]))
              | PlainResponse s \<Rightarrow> (Inl InvalidPaymentInfoFormat, [payment])
              | NoResponseHeader \<Rightarrow>
                  (if httpStatus paid = 200 \<or> httpStatus paid = 201
                   then (Inr (Some ''0x0''), [payment])
                   else (Inl (PaymentRequestFailed (httpStatus paid)), [payment]))))))"

subsection \<open>Example inputs\<close>

definition example_info :: "string \<Rightarrow> real \<Rightarrow> X402PaymentInfo" where
  "example_info net a = \<lparr> scheme = ''exact'', networkId = net, maxAmountRequired = Some a,
     beneficiary = ''0xpayee'', usdcContract = ''0xusdc'', validForSeconds = None \<rparr>"

definition error_response :: "string \<Rightarrow> http_response" where
  "error_response e = \<lparr> httpStatus = 402, paymentInfoHeader = NoInfoHeader,
     paymentResponseHeader = JsonResponse \<lparr> respStatus = ''error'', respError = Some e, respTxHash = None \<rparr> \<rparr>"

definition success_response :: http_response where
  "success_response = \<lparr> httpStatus = 200, paymentInfoHeader = NoInfoHeader,
     paymentResponseHeader = JsonResponse \<lparr> respStatus = ''success'', respError = None,
       respTxHash = Some ''0xtx1'' \<rparr> \<rparr>"

text \<open>
  A server that answers \<open>invalid\<close> to the first \<open>n\<close> paid requests and accepts the next one,
  with an average price of 1, a balance of 100 and a nonce that counts the attempts.
\<close>
definition invalid_then_success :: "nat \<Rightarrow> pay_env" where
  "invalid_then_success n = \<lparr> historicalAvg = (\<lambda>k. 1), walletBalance = (\<lambda>k. 100),
     nowSeconds = (\<lambda>k. 1700000000), nowMillis = (\<lambda>k. 1700000000500),
     nonceAt = (\<lambda>k. ''n'' @ show_nat k),
     paidResponse = (\<lambda>k. if k < n then error_response ''invalid'' else success_response) \<rparr>"

definition always_invalid :: pay_env where
  "always_invalid = \<lparr> historicalAvg = (\<lambda>k. 1), walletBalance = (\<lambda>k. 100),
     nowSeconds = (\<lambda>k. 1700000000), nowMillis = (\<lambda>k. 1700000000500),
     nonceAt = (\<lambda>k. ''n'' @ show_nat k),
     paidResponse = (\<lambda>k. error_response ''invalid'') \<rparr>"

definition funds_exceeded_server :: pay_env where
  "funds_exceeded_server = \<lparr> historicalAvg = (\<lambda>k. 1), walletBalance = (\<lambda>k. 100),
     nowSeconds = (\<lambda>k. 1700000000), nowMillis = (\<lambda>k. 1700000000500),
     nonceAt = (\<lambda>k. ''n'' @ show_nat k),
     paidResponse = (\<lambda>k. error_response ''funds_exceeded'') \<rparr>"

definition example_evidence :: X402Evidence where
  "example_evidence = \<lparr> evTxHash = ''0xtx1'', evNetworkId = ''8453'',
     evPayment = \<lparr> payTo = ''0xpayee'', payValue = Some 1, validAfter = 0, validBefore = 120, nonce = ''n0'' \<rparr>,
     evTimestamp = 0 \<rparr>"

text \<open>
  A facilitator that accepts the evidence at once and then answers every status query with
  a status that is neither \<open>confirmed\<close> nor \<open>failed\<close>, one query every 6 seconds.
\<close>
definition never_confirms :: settle_env where
  "never_confirms = \<lparr> submitAt = (\<lambda>i. SubmitSuccess), statusAt = (\<lambda>j. StatusOther),
     elapsedAt = (\<lambda>j. 6000 * int j) \<rparr>"

text \<open>A facilitator that reports \<open>failed\<close> to the first status query and \<open>confirmed\<close> to the second.\<close>
definition failed_then_confirmed :: settle_env where
  "failed_then_confirmed = \<lparr> submitAt = (\<lambda>i. SubmitSuccess),
     statusAt = (\<lambda>j. if j = 0 then StatusFailed else StatusConfirmed),
     elapsedAt = (\<lambda>j. 5000 * int j) \<rparr>"

text \<open>A facilitator that never accepts the evidence.\<close>
definition submission_fails :: settle_env where
  "submission_fails = \<lparr> submitAt = (\<lambda>i. SubmitThrows), statusAt = (\<lambda>j. StatusOther),
     elapsedAt = (\<lambda>j. 5000 * int j) \<rparr>"

definition example_net_env :: net_env where
  "example_net_env = \<lparr> walletExists = True, usdcMicroBalance = 100000000, netNowSeconds = 1700000000,
     netNonce = ''0xnonce'', netPaidResponse = success_response \<rparr>"

text \<open>A client with no payment history yet: the logger reports an average of 0.\<close>
definition no_history :: pay_env where
  "no_history = \<lparr> historicalAvg = (\<lambda>k. 0), walletBalance = (\<lambda>k. 2000000),
     nowSeconds = (\<lambda>k. 1700000000), nowMillis = (\<lambda>k. 1700000000500),
     nonceAt = (\<lambda>k. ''n'' @ show_nat k), paidResponse = (\<lambda>k. success_response) \<rparr>"

definition challenge :: "X402PaymentInfo \<Rightarrow> http_response" where
  "challenge info = \<lparr> httpStatus = 402, paymentInfoHeader = ParsedInfo info,
     paymentResponseHeader = NoResponseHeader \<rparr>"

section \<open>Properties of the survival loop\<close>

lemma determineOperationMode_cases:
  "determineOperationMode b =
     (if eth b < 1000000000000000 then EMERGENCY
      else if usdc b < 500000 then HIBERNATION
      else if usdc b < 2000000 then EMERGENCY
      else if usdc b < 5000000 then LOW_POWER
      else NORMAL)"
  by (simp add: determineOperationMode_def MIN_ETH_FOR_GAS_def HIBERNATION_THRESHOLD_def
      EMERGENCY_THRESHOLD_def LOW_POWER_THRESHOLD_def)

lemma cycle_mode:
  assumes "getBalances env = Inr b"
  shows "mode (bot (snd (runSurvivalCycle env m))) = determineOperationMode b"
  using assms
  by (simp add: runSurvivalCycle_def Let_def executeNormalMode_def executeLowPowerMode_def
      executeEmergencyMode_def executeHibernationMode_def split: OperationMode.splits)

lemma cycle_status:
  assumes "getBalances env = Inr b"
  shows "status (bot (snd (runSurvivalCycle env m))) =
           (if usdc b < HIBERNATION_THRESHOLD \<and> eth b < MIN_ETH_FOR_GAS then DEAD else status (bot m))"
  using assms
  by (simp add: runSurvivalCycle_def Let_def executeNormalMode_def executeLowPowerMode_def
      executeEmergencyMode_def executeHibernationMode_def split: OperationMode.splits)

lemma cycle_death_action:
  assumes "getBalances env = Inr b"
  shows "\<exists>r. fst (runSurvivalCycle env m) = Inr r \<and>
           (''death'' \<in> set (actions r)) = (usdc b < HIBERNATION_THRESHOLD \<and> eth b < MIN_ETH_FOR_GAS)"
  using assms
  by (cases "determineOperationMode b")
     (simp_all add: runSurvivalCycle_def Let_def executeNormalMode_def executeLowPowerMode_def
      executeEmergencyMode_def executeHibernationMode_def)

text \<open>
  C1. The mode classifier checks gas first and then the three stable-balance floors in
  order: Emergency below the minimum-gas floor (0.001 ETH) whatever the stable balance;
  otherwise Hibernation below 0.5 USDC, Emergency below 2 USDC, LowPower below 5 USDC,
  Normal from there on. It reads nothing but the two balances: the mode a cycle leaves in
  the status is the classifier's value on the queried balances, whatever the manager's
  state before the cycle.
\<close>
theorem determineOperationMode_ordered_thresholds:
  "determineOperationMode b =
     (if eth b < 1000000000000000 then EMERGENCY
      else if usdc b < 500000 then HIBERNATION
      else if usdc b < 2000000 then EMERGENCY
      else if usdc b < 5000000 then LOW_POWER
      else NORMAL)
   \<and> mode (bot (snd (runSurvivalCycle (env\<lparr>getBalances := Inr b\<rparr>) m))) = determineOperationMode b"
  using determineOperationMode_cases [of b] cycle_mode [of "env\<lparr>getBalances := Inr b\<rparr>" b m]
  by simp

theorem determineOperationMode_ordered_thresholds_witness:
  "determineOperationMode \<lparr>eth = 10000000000000000, usdc = 25000000\<rparr> = NORMAL
   \<and> determineOperationMode \<lparr>eth = 999999999999999, usdc = 25000000\<rparr> = EMERGENCY
   \<and> determineOperationMode \<lparr>eth = 10000000000000000, usdc = 499999\<rparr> = HIBERNATION
   \<and> determineOperationMode \<lparr>eth = 10000000000000000, usdc = 1999999\<rparr> = EMERGENCY
   \<and> determineOperationMode \<lparr>eth = 10000000000000000, usdc = 4999999\<rparr> = LOW_POWER"
  using determineOperationMode_ordered_thresholds [of "\<lparr>eth = 10000000000000000, usdc = 25000000\<rparr>"]
    determineOperationMode_ordered_thresholds [of "\<lparr>eth = 999999999999999, usdc = 25000000\<rparr>"]
    determineOperationMode_ordered_thresholds [of "\<lparr>eth = 10000000000000000, usdc = 499999\<rparr>"]
    determineOperationMode_ordered_thresholds [of "\<lparr>eth = 10000000000000000, usdc = 1999999\<rparr>"]
    determineOperationMode_ordered_thresholds [of "\<lparr>eth = 10000000000000000, usdc = 4999999\<rparr>"]
  by simp

text \<open>
  C2. In every cycle whose balance query succeeds, whatever the mode and status before it,
  the cycle marks the agent Dead (sets the status and records the \<open>death\<close> action) exactly
  when the stable balance is below the hibernation floor (0.5 USDC) and the gas balance is
  below the minimum-gas floor (0.001 ETH); otherwise the status is left as it was. In
  particular a stable balance below the hibernation floor with sufficient gas puts the agent
  in Hibernation and does not mark it Dead.
\<close>
theorem runSurvivalCycle_death_condition:
  "status (bot (snd (runSurvivalCycle (env\<lparr>getBalances := Inr b\<rparr>) m))) =
      (if usdc b < 500000 \<and> eth b < 1000000000000000 then DEAD else status (bot m))
   \<and> (\<exists>r. fst (runSurvivalCycle (env\<lparr>getBalances := Inr b\<rparr>) m) = Inr r \<and>
          (''death'' \<in> set (actions r)) = (usdc b < 500000 \<and> eth b < 1000000000000000))
   \<and> (if usdc b < 500000 \<and> \<not> eth b < 1000000000000000
       then mode (bot (snd (runSurvivalCycle (env\<lparr>getBalances := Inr b\<rparr>) m))) = HIBERNATION
          \<and> status (bot (snd (runSurvivalCycle (env\<lparr>getBalances := Inr b\<rparr>) m))) = status (bot m)
       else True)"
  using cycle_status [of "env\<lparr>getBalances := Inr b\<rparr>" b m]
    cycle_death_action [of "env\<lparr>getBalances := Inr b\<rparr>" b m]
    cycle_mode [of "env\<lparr>getBalances := Inr b\<rparr>" b m]
    determineOperationMode_cases [of b]
  by (simp add: HIBERNATION_THRESHOLD_def MIN_ETH_FOR_GAS_def)

theorem runSurvivalCycle_death_condition_witness:
  "status (bot (snd (runSurvivalCycle (example_env\<lparr>getBalances := Inr \<lparr>eth = 10000000000000000, usdc = 300000\<rparr>\<rparr>)
      \<lparr>bot = example_bot, cycleCount = 0, thoughtLog = []\<rparr>))) = ALIVE
   \<and> mode (bot (snd (runSurvivalCycle (example_env\<lparr>getBalances := Inr \<lparr>eth = 10000000000000000, usdc = 300000\<rparr>\<rparr>)
      \<lparr>bot = example_bot, cycleCount = 0, thoughtLog = []\<rparr>))) = HIBERNATION
   \<and> status (bot (snd (runSurvivalCycle (example_env\<lparr>getBalances := Inr \<lparr>eth = 5, usdc = 300000\<rparr>\<rparr>)
      \<lparr>bot = example_bot, cycleCount = 0, thoughtLog = []\<rparr>))) = DEAD"
  using runSurvivalCycle_death_condition [of "\<lparr>eth = 10000000000000000, usdc = 300000\<rparr>" example_env
      "\<lparr>bot = example_bot, cycleCount = 0, thoughtLog = []\<rparr>"]
    runSurvivalCycle_death_condition [of "\<lparr>eth = 5, usdc = 300000\<rparr>" example_env
      "\<lparr>bot = example_bot, cycleCount = 0, thoughtLog = []\<rparr>"]
  by (simp add: example_bot_def)

section \<open>Properties of the x402 survival check\<close>

lemma failed_check_counter:
  assumes "cycle_failed th io st"
  shows "consecutiveFailures (fst (survivalCheck th io st)) = consecutiveFailures st + 1"
proof -
  obtain st1 where tb: "try_block th io (st\<lparr>lastCheck := checkTime io\<rparr>) = (st1, False)"
    using assms by (cases "try_block th io (st\<lparr>lastCheck := checkTime io\<rparr>)") (auto simp: cycle_failed_def)
  have "consecutiveFailures st1 = consecutiveFailures st"
    using tb
    by (auto simp: try_block_def updateBalance_def Let_def
        split: outcome.splits option.splits if_splits prod.splits)
  then show ?thesis
    using tb by (simp add: survivalCheck_def Let_def hibernate_def)
qed

lemma failed_check_mode:
  assumes "cycle_failed th io st" and "5 < consecutiveFailures st + 1"
  shows "smode (fst (survivalCheck th io st)) = Hibernation"
proof -
  obtain st1 where tb: "try_block th io (st\<lparr>lastCheck := checkTime io\<rparr>) = (st1, False)"
    using assms(1) by (cases "try_block th io (st\<lparr>lastCheck := checkTime io\<rparr>)") (auto simp: cycle_failed_def)
  have "consecutiveFailures st1 = consecutiveFailures st"
    using tb
    by (auto simp: try_block_def updateBalance_def Let_def
        split: outcome.splits option.splits if_splits prod.splits)
  then show ?thesis
    using tb assms(2) by (simp add: survivalCheck_def Let_def hibernate_def)
qed

lemma all_failed_hibernation:
  "all_failed th ios st \<Longrightarrow> ios \<noteq> [] \<Longrightarrow> 5 < consecutiveFailures st + length ios
     \<Longrightarrow> smode (run_checks th ios st) = Hibernation"
proof (induction ios arbitrary: st)
  case Nil
  then show ?case by simp
next
  case (Cons io ios)
  have f: "cycle_failed th io st" using Cons.prems(1) by simp
  show ?case
  proof (cases "ios = []")
    case True
    then show ?thesis using f Cons.prems(3) by (simp add: failed_check_mode)
  next
    case False
    have "5 < consecutiveFailures (fst (survivalCheck th io st)) + length ios"
      using failed_check_counter [OF f] Cons.prems(3) by simp
    then show ?thesis using Cons.IH [of "fst (survivalCheck th io st)"] Cons.prems(1) False by simp
  qed
qed

text \<open>
  C7 as stated fails: from the constructor's state, five consecutive checks that all fail
  (the balance query throws each time) leave the failure counter at 5 and the mode Normal,
  because hibernation needs the counter to exceed 5.
\<close>
theorem five_failures_not_hibernation:
  "all_failed example_thresholds [rpc_down, rpc_down, rpc_down, rpc_down, rpc_down] initial_state
   \<and> smode (run_checks example_thresholds [rpc_down, rpc_down, rpc_down, rpc_down, rpc_down] initial_state) = Normal
   \<and> consecutiveFailures (run_checks example_thresholds [rpc_down, rpc_down, rpc_down, rpc_down, rpc_down] initial_state) = 5"
  by (simp add: cycle_failed_def try_block_def updateBalance_def survivalCheck_def rpc_down_def
      initial_state_def Let_def hibernate_def)

text \<open>
  C7, amended. After a run of consecutive failed checks (no success in between) that takes
  the consecutive-failure counter above 5, the mode is Hibernation, whatever the balances:
  six failed checks from a counter just reset to 0, or fewer from a counter already above 0.
\<close>
theorem consecutive_failures_hibernation:
  assumes "all_failed th ios st" and "ios \<noteq> []" and "5 < consecutiveFailures st + length ios"
  shows "smode (run_checks th ios st) = Hibernation"
  using assms by (rule all_failed_hibernation)

theorem consecutive_failures_hibernation_witness:
  "all_failed example_thresholds [rpc_down, rpc_down, rpc_down, rpc_down, rpc_down, rpc_down] initial_state
   \<and> [rpc_down, rpc_down, rpc_down, rpc_down, rpc_down, rpc_down] \<noteq> []
   \<and> 5 < consecutiveFailures initial_state + length [rpc_down, rpc_down, rpc_down, rpc_down, rpc_down, rpc_down]
   \<and> smode (run_checks example_thresholds [rpc_down, rpc_down, rpc_down, rpc_down, rpc_down, rpc_down] initial_state) = Hibernation"
proof -
  have a: "all_failed example_thresholds [rpc_down, rpc_down, rpc_down, rpc_down, rpc_down, rpc_down] initial_state"
    by (simp add: cycle_failed_def try_block_def updateBalance_def survivalCheck_def rpc_down_def
        initial_state_def Let_def hibernate_def)
  have b: "[rpc_down, rpc_down, rpc_down, rpc_down, rpc_down, rpc_down] \<noteq> []" by simp
  have c: "5 < consecutiveFailures initial_state + length [rpc_down, rpc_down, rpc_down, rpc_down, rpc_down, rpc_down]"
    by (simp add: initial_state_def)
  from consecutive_failures_hibernation [OF a b c] a b c show ?thesis by simp
qed

section \<open>Properties of the gene hash\<close>

text \<open>The model of SHA-256 reproduces the FIPS 180-4 test vector for \<open>abc\<close>.\<close>
lemma sha256_abc:
  "sha256 ''abc'' = ''ba7816bf8f01cfea414140de5dae2223b00361a396177a9cb410ff61f20015ad''"
  by code_simp

lemma utf8_encode_ascii: "ascii s \<Longrightarrow> utf8_encode s = s"
  by (induction s rule: utf8_encode.induct)
     (simp_all add: ascii_def encode_unit_def encode_cp_def high_surrogate_def low_surrogate_def)


text \<open>On a string of characters below 128 the two models of the hash agree.\<close>
lemma sha256_js_literal:
  assumes "ascii (js s)"
  shows "sha256_js (js s) = js (sha256 s)"
  using utf8_encode_ascii [OF assms] by (simp add: sha256_js_def sha256_def js_def)







section \<open>The Merkle root determines its leaves up to a SHA-256 collision\<close>































section \<open>Properties of the blender\<close>

lemma get_prop_unit:
  "numeric_traits_in_unit obj \<Longrightarrow> unit_value (get_prop obj key)"
  by (auto simp: numeric_traits_in_unit_def get_prop_def list_all_iff unit_value_def
      split: option.splits dest!: map_of_SomeD)

lemma set_prop_unit:
  "numeric_traits_in_unit obj \<Longrightarrow> unit_value v \<Longrightarrow> numeric_traits_in_unit (set_prop obj key v)"
  by (auto simp: numeric_traits_in_unit_def set_prop_def list_all_iff split: if_splits)

lemma convex_unit:
  fixes a b w :: real
  assumes "0 \<le> a" "a \<le> 1" "0 \<le> b" "b \<le> 1" "0 \<le> w" "w \<le> 1"
  shows "0 \<le> a * w + b * (1 - w)" and "a * w + b * (1 - w) \<le> 1"
proof -
  show "0 \<le> a * w + b * (1 - w)" using assms by simp
  have "a * w \<le> 1 * w" using assms by (intro mult_right_mono) simp_all
  moreover have "b * (1 - w) \<le> 1 * (1 - w)" using assms by (intro mult_right_mono) simp_all
  ultimately show "a * w + b * (1 - w) \<le> 1" by simp
qed

lemma blend_key_unit:
  assumes "numeric_traits_in_unit traitsA" and "numeric_traits_in_unit traitsB"
    and "0 \<le> weightA" and "weightA \<le> 1" and "weightB = 1 - weightA"
    and "numeric_traits_in_unit (fst acc)"
  shows "numeric_traits_in_unit (fst (blend_key rt traitsA traitsB weightA weightB key acc))"
proof -
  obtain blended muts ri where acc: "acc = (blended, muts, ri)" by (cases acc) auto
  have b: "numeric_traits_in_unit blended" using assms(6) acc by simp
  have ua: "unit_value (get_prop traitsA key)" using assms(1) by (rule get_prop_unit)
  have ub: "unit_value (get_prop traitsB key)" using assms(2) by (rule get_prop_unit)
  have opt: "unit_value (option_at opts x)" for opts x
    by (simp add: option_at_def unit_value_def Let_def)
  have clamp: "unit_value (JNum (max 0 (min 1 x)))" for x :: real
    by (simp add: unit_value_def)
  have avg: "unit_value (JNum (num_of (get_prop traitsA key) * weightA + num_of (get_prop traitsB key) * weightB))"
    if na: "is_JNum (get_prop traitsA key)" and nb: "is_JNum (get_prop traitsB key)"
  proof -
    obtain x where x: "get_prop traitsA key = JNum x" using na by (auto simp: is_JNum_def)
    obtain y where y: "get_prop traitsB key = JNum y" using nb by (auto simp: is_JNum_def)
    have "0 \<le> x" "x \<le> 1" "0 \<le> y" "y \<le> 1" using ua ub x y by (simp_all add: unit_value_def)
    then show ?thesis
      using convex_unit [of x y weightA] assms(3,4,5) x y by (simp add: unit_value_def)
  qed
  show ?thesis
    unfolding acc blend_key_def Let_def
    using b ua ub opt clamp avg by (auto intro!: set_prop_unit)
qed

lemma fold_blend_key_unit:
  assumes "numeric_traits_in_unit traitsA" and "numeric_traits_in_unit traitsB"
    and "0 \<le> weightA" and "weightA \<le> 1" and "weightB = 1 - weightA"
  shows "numeric_traits_in_unit (fst acc) \<Longrightarrow>
           numeric_traits_in_unit (fst (fold (blend_key rt traitsA traitsB weightA weightB) keys acc))"
proof (induction keys arbitrary: acc)
  case Nil
  then show ?case by simp
next
  case (Cons key keys)
  have "numeric_traits_in_unit (fst (blend_key rt traitsA traitsB weightA weightB key acc))"
    using assms Cons.prems by (intro blend_key_unit)
  then show ?case using Cons.IH by simp
qed

lemma contribution_weights_unit:
  assumes "0 \<le> a" and "0 \<le> b"
  shows "0 \<le> fst (contribution_weights a b)" and "fst (contribution_weights a b) \<le> 1"
    and "snd (contribution_weights a b) = 1 - fst (contribution_weights a b)"
  using assms by (simp_all add: contribution_weights_def Let_def divide_le_eq)

lemma blendTraits_unit:
  assumes "numeric_traits_in_unit traitsA" and "numeric_traits_in_unit traitsB"
    and "0 \<le> weightA" and "weightA \<le> 1" and "weightB = 1 - weightA"
  shows "numeric_traits_in_unit (fst (blendTraits rt traitsA traitsB weightA weightB mr))"
proof -
  obtain muts ri where mr: "mr = (muts, ri)" by (cases mr) auto
  have "numeric_traits_in_unit (fst (initial_traits, muts, ri))"
    by (simp add: initial_traits_def numeric_traits_in_unit_def unit_value_def)
  then show ?thesis
    unfolding mr blendTraits_def Let_def prod.case
    by (rule fold_blend_key_unit [OF assms])
qed

lemma blend_unrelated:
  assumes "\<not> isRelated (geneHash parentA) (geneHash parentB) MAX_INBREEDING_DEPTH"
  shows "\<exists>traits muts ri kb ri2 ci2 sl ri3 ci3.
     blendTraits rt (personalityTraits parentA) (personalityTraits parentB)
        (fst (contribution_weights (survivalDays parentA) (survivalDays parentB)))
        (snd (contribution_weights (survivalDays parentA) (survivalDays parentB))) ([], 0) = (traits, muts, ri)
     \<and> blendKnowledge rt (knowledgeBase parentA) (knowledgeBase parentB) (ri, 0) = (kb, ri2, ci2)
     \<and> blendSoul rt (soul parentA) (soul parentB)
        (fst (contribution_weights (survivalDays parentA) (survivalDays parentB)))
        (snd (contribution_weights (survivalDays parentA) (survivalDays parentB))) (ri2, ci2) = (sl, ri3, ci3)
     \<and> blend rt parentA parentB =
         Inr \<lparr> childMemory =
                 \<lparr> geneHash = ''0x'' @ sha256 (geneHash parentA @ '':'' @ geneHash parentB @ '':''
                                @ show_int (dateNow rt ci3) @ '':'' @ stringify rt traits),
                   generation = max (generation parentA) (generation parentB) + 1,
                   birthTime = dateNow rt ci3,
                   parents = [geneHash parentA, geneHash parentB],
                   soul = sl,
                   memory = \<lparr> thoughts = [], transactions = [], dailySummaries = [] \<rparr>,
                   personalityTraits = traits,
                   knowledgeBase = kb,
                   survivalDays = 0,
                   arweaveManifest = \<lparr> version = ''1.0'',
                      manifestGeneHash = ''0x'' @ sha256 (geneHash parentA @ '':'' @ geneHash parentB @ '':''
                                @ show_int (dateNow rt ci3) @ '':'' @ stringify rt traits),
                      entries = [] \<rparr> \<rparr>,
               mutations = muts,
               parentAContribution = fst (contribution_weights (survivalDays parentA) (survivalDays parentB)),
               parentBContribution = snd (contribution_weights (survivalDays parentA) (survivalDays parentB)) \<rparr>"
  using assms
  by (auto simp: blend_def computeChildGeneHash_def Let_def split: prod.splits)

text \<open>
  C3 as stated fails in its last part: the child's identity is not a content hash of the
  child's own record set. The same pair of parents, once with an empty knowledge base and once
  after the first parent has learnt one entry, gives two children whose knowledge bases differ
  and whose identities are equal, because the hash covers only the parents' hashes, the birth
  time and the blended traits.
\<close>
theorem child_identity_ignores_knowledge:
  "knowledgeBase (childMemory (projr (blend example_runtime
       (example_parent ''0xaaaaaaaa01'' 1 10 (2 / 10)) (example_parent ''0xbbbbbbbb02'' 2 30 (8 / 10)))))
     \<noteq> knowledgeBase (childMemory (projr (blend example_runtime
       ((example_parent ''0xaaaaaaaa01'' 1 10 (2 / 10))\<lparr>knowledgeBase := [example_knowledge]\<rparr>)
       (example_parent ''0xbbbbbbbb02'' 2 30 (8 / 10)))))
   \<and> geneHash (childMemory (projr (blend example_runtime
       (example_parent ''0xaaaaaaaa01'' 1 10 (2 / 10)) (example_parent ''0xbbbbbbbb02'' 2 30 (8 / 10)))))
     = geneHash (childMemory (projr (blend example_runtime
       ((example_parent ''0xaaaaaaaa01'' 1 10 (2 / 10))\<lparr>knowledgeBase := [example_knowledge]\<rparr>)
       (example_parent ''0xbbbbbbbb02'' 2 30 (8 / 10)))))"
  by (simp add: blend_def isRelated_def MAX_INBREEDING_DEPTH_def example_parent_def example_runtime_def
      contribution_weights_def blendTraits_def blendKnowledge_def blendSoul_def computeChildGeneHash_def
      example_knowledge_def Let_def split: prod.splits)

text \<open>
  C3, amended. For every unrelated parent pair, \<^verbatim>\<open>blend\<close> returns a child whose generation is
  the larger parent generation plus one, whose parents field is the two parents' identities
  in order, whose history (thoughts, transactions, daily summaries) is empty, and whose
  identity is computed afresh, not copied from a parent: it is \<open>0x\<close> followed by the SHA-256
  of the two parents' identities, the child's birth time and the rendering of the child's
  blended traits, joined by colons. The knowledge base and the soul do not enter it.
\<close>
theorem blend_child_metadata:
  assumes "\<not> isRelated (geneHash parentA) (geneHash parentB) MAX_INBREEDING_DEPTH"
  shows "\<exists>res. blend rt parentA parentB = Inr res
     \<and> generation (childMemory res) = max (generation parentA) (generation parentB) + 1
     \<and> parents (childMemory res) = [geneHash parentA, geneHash parentB]
     \<and> memory (childMemory res) = \<lparr> thoughts = [], transactions = [], dailySummaries = [] \<rparr>
     \<and> geneHash (childMemory res) =
          ''0x'' @ sha256 (geneHash parentA @ '':'' @ geneHash parentB @ '':''
                           @ show_int (birthTime (childMemory res)) @ '':''
                           @ stringify rt (personalityTraits (childMemory res)))"
  using blend_unrelated [OF assms, of rt] by auto

theorem blend_child_metadata_witness:
  "\<not> isRelated (geneHash (example_parent ''0xaaaaaaaa01'' 1 10 (2 / 10)))
        (geneHash (example_parent ''0xbbbbbbbb02'' 2 30 (8 / 10))) MAX_INBREEDING_DEPTH
   \<and> (\<exists>res. blend example_runtime (example_parent ''0xaaaaaaaa01'' 1 10 (2 / 10))
              (example_parent ''0xbbbbbbbb02'' 2 30 (8 / 10)) = Inr res
        \<and> generation (childMemory res) = 3
        \<and> parents (childMemory res) = [''0xaaaaaaaa01'', ''0xbbbbbbbb02''])"
proof -
  have u: "\<not> isRelated (geneHash (example_parent ''0xaaaaaaaa01'' 1 10 (2 / 10)))
        (geneHash (example_parent ''0xbbbbbbbb02'' 2 30 (8 / 10))) MAX_INBREEDING_DEPTH"
    by (simp add: isRelated_def example_parent_def)
  from blend_child_metadata [OF u, of example_runtime] u show ?thesis
    by (auto simp: example_parent_def)
qed

text \<open>
  C9 as stated fails in its last part: negative survival durations are not an error. Parents
  with survival days \<open>-1\<close> and \<open>3\<close> are blended like any other pair: \<^verbatim>\<open>blend\<close> returns a
  result and nothing is thrown.
\<close>
theorem negative_survival_no_error:
  "\<not> isl (blend example_runtime (example_parent ''0xaaaaaaaa01'' 1 (- 1) (2 / 10))
              (example_parent ''0xbbbbbbbb02'' 2 3 (8 / 10)))"
  by (simp add: blend_def isRelated_def MAX_INBREEDING_DEPTH_def example_parent_def
      contribution_weights_def Let_def split: prod.splits)

text \<open>
  C9, amended. For every unrelated parent pair \<^verbatim>\<open>blend\<close> returns a result, whatever the
  survival durations are: no duration is rejected. When both survival durations are
  non-negative, the weights of the result satisfy \<open>weightB = 1 - weightA\<close> and sum to 1, both
  lie in \<open>[0, 1]\<close>, and \<open>weightA\<close> is \<open>survivalA / (survivalA + survivalB)\<close> when that sum is
  positive and \<open>1/2\<close> when both durations are 0. About the weights of a pair with a negative
  duration nothing is stated.
\<close>
theorem blend_contribution_weights:
  assumes "\<not> isRelated (geneHash parentA) (geneHash parentB) MAX_INBREEDING_DEPTH"
  shows "\<exists>res. blend rt parentA parentB = Inr res
     \<and> (0 \<le> survivalDays parentA \<and> 0 \<le> survivalDays parentB \<longrightarrow>
          parentAContribution res =
            (if survivalDays parentA + survivalDays parentB > 0
             then survivalDays parentA / (survivalDays parentA + survivalDays parentB) else 1 / 2)
          \<and> parentBContribution res = 1 - parentAContribution res
          \<and> parentAContribution res + parentBContribution res = 1
          \<and> 0 \<le> parentAContribution res \<and> parentAContribution res \<le> 1
          \<and> 0 \<le> parentBContribution res \<and> parentBContribution res \<le> 1)
     \<and> (survivalDays parentA = 0 \<and> survivalDays parentB = 0 \<longrightarrow>
          parentAContribution res = 1 / 2 \<and> parentBContribution res = 1 / 2)"
proof -
  obtain res where r: "blend rt parentA parentB = Inr res"
    and w: "(parentAContribution res, parentBContribution res)
              = contribution_weights (survivalDays parentA) (survivalDays parentB)"
    using blend_unrelated [OF assms, of rt] by auto
  have f: "parentAContribution res =
            (if survivalDays parentA + survivalDays parentB > 0
             then survivalDays parentA / (survivalDays parentA + survivalDays parentB) else 1 / 2)"
    and g: "parentBContribution res = 1 - parentAContribution res"
    using w by (simp_all add: contribution_weights_def Let_def)
  have u: "0 \<le> parentAContribution res \<and> parentAContribution res \<le> 1"
    if "0 \<le> survivalDays parentA" and "0 \<le> survivalDays parentB"
    using contribution_weights_unit [OF that] w [symmetric] by simp
  have z: "parentAContribution res = 1 / 2 \<and> parentBContribution res = 1 / 2"
    if "survivalDays parentA = 0 \<and> survivalDays parentB = 0"
    using that f g by simp
  from r f g u z show ?thesis by auto
qed

theorem blend_contribution_weights_witness:
  "\<not> isRelated (geneHash (example_parent ''0xaaaaaaaa01'' 1 10 (2 / 10)))
        (geneHash (example_parent ''0xbbbbbbbb02'' 2 30 (8 / 10))) MAX_INBREEDING_DEPTH
   \<and> 0 \<le> survivalDays (example_parent ''0xaaaaaaaa01'' 1 10 (2 / 10))
   \<and> 0 \<le> survivalDays (example_parent ''0xbbbbbbbb02'' 2 30 (8 / 10))
   \<and> (\<exists>res. blend example_runtime (example_parent ''0xaaaaaaaa01'' 1 10 (2 / 10))
              (example_parent ''0xbbbbbbbb02'' 2 30 (8 / 10)) = Inr res
        \<and> parentAContribution res = 1 / 4 \<and> parentBContribution res = 3 / 4)
   \<and> \<not> isRelated (geneHash (example_parent ''0xaaaaaaaa01'' 1 0 (2 / 10)))
        (geneHash (example_parent ''0xbbbbbbbb02'' 2 0 (8 / 10))) MAX_INBREEDING_DEPTH
   \<and> survivalDays (example_parent ''0xaaaaaaaa01'' 1 0 (2 / 10)) = 0
   \<and> survivalDays (example_parent ''0xbbbbbbbb02'' 2 0 (8 / 10)) = 0
   \<and> (\<exists>res. blend example_runtime (example_parent ''0xaaaaaaaa01'' 1 0 (2 / 10))
              (example_parent ''0xbbbbbbbb02'' 2 0 (8 / 10)) = Inr res
        \<and> parentAContribution res = 1 / 2 \<and> parentBContribution res = 1 / 2)"
proof -
  have u: "\<not> isRelated (geneHash (example_parent ''0xaaaaaaaa01'' 1 d (2 / 10)))
        (geneHash (example_parent ''0xbbbbbbbb02'' 2 e (8 / 10))) MAX_INBREEDING_DEPTH" for d e
    by (simp add: isRelated_def example_parent_def)
  have d: "survivalDays (example_parent h g days t) = days" for h g days t
    by (simp add: example_parent_def)
  from blend_contribution_weights [OF u, of example_runtime 10 30]
    blend_contribution_weights [OF u, of example_runtime 0 0] u d
  show ?thesis by auto
qed

text \<open>
  C10. When every numeric trait of both parents lies in \<open>[0, 1]\<close> and the weights are the
  contribution weights of two non-negative survival durations, every numeric trait of the
  object \<^verbatim>\<open>blendTraits\<close> returns lies in \<open>[0, 1]\<close>, whatever values the random source gives,
  so with or without mutation.
\<close>
theorem blendTraits_numeric_in_unit:
  assumes "numeric_traits_in_unit traitsA" and "numeric_traits_in_unit traitsB"
    and "0 \<le> survivalA" and "0 \<le> survivalB"
    and "contribution_weights survivalA survivalB = (weightA, weightB)"
    and "(key, JNum x) \<in> set (fst (blendTraits rt traitsA traitsB weightA weightB mr))"
  shows "0 \<le> x \<and> x \<le> 1"
proof -
  have w: "0 \<le> weightA" "weightA \<le> 1" "weightB = 1 - weightA"
    using contribution_weights_unit [OF assms(3,4)] assms(5) by simp_all
  have "numeric_traits_in_unit (fst (blendTraits rt traitsA traitsB weightA weightB mr))"
    using assms(1,2) w by (rule blendTraits_unit)
  then show ?thesis
    using assms(6) by (auto simp: numeric_traits_in_unit_def list_all_iff unit_value_def)
qed

theorem blendTraits_numeric_in_unit_witness:
  "numeric_traits_in_unit [(''aggression'', JNum (2 / 10))]
   \<and> numeric_traits_in_unit [(''aggression'', JNum (8 / 10))]
   \<and> (0::real) \<le> 10 \<and> (0::real) \<le> 30
   \<and> contribution_weights 10 30 = (1 / 4, 3 / 4)
   \<and> (''aggression'', JNum (65 / 100)) \<in> set (fst (blendTraits example_runtime
         [(''aggression'', JNum (2 / 10))] [(''aggression'', JNum (8 / 10))] (1 / 4) (3 / 4) ([], 0)))
   \<and> (''aggression'', JNum (52 / 100)) \<in> set (fst (blendTraits mutating_runtime
         [(''aggression'', JNum (2 / 10))] [(''aggression'', JNum (8 / 10))] (1 / 4) (3 / 4) ([], 0)))
   \<and> (0::real) \<le> 65 / 100 \<and> (65::real) / 100 \<le> 1"
proof -
  have a: "numeric_traits_in_unit [(''aggression'', JNum (2 / 10))]"
    by (simp add: numeric_traits_in_unit_def unit_value_def)
  have b: "numeric_traits_in_unit [(''aggression'', JNum (8 / 10))]"
    by (simp add: numeric_traits_in_unit_def unit_value_def)
  have c: "(0::real) \<le> 10" "(0::real) \<le> 30" by simp_all
  have d: "contribution_weights 10 30 = (1 / 4, 3 / 4)"
    by (simp add: contribution_weights_def Let_def)
  have e: "(''aggression'', JNum (65 / 100)) \<in> set (fst (blendTraits example_runtime
         [(''aggression'', JNum (2 / 10))] [(''aggression'', JNum (8 / 10))] (1 / 4) (3 / 4) ([], 0)))"
    by (simp add: blendTraits_def blend_key_def get_prop_def set_prop_def initial_traits_def
        example_runtime_def MUTATION_RATE_def Let_def)
  have f: "(''aggression'', JNum (52 / 100)) \<in> set (fst (blendTraits mutating_runtime
         [(''aggression'', JNum (2 / 10))] [(''aggression'', JNum (8 / 10))] (1 / 4) (3 / 4) ([], 0)))"
    by (simp add: blendTraits_def blend_key_def get_prop_def set_prop_def initial_traits_def
        mutating_runtime_def MUTATION_RATE_def MUTATION_MAGNITUDE_def Let_def)
  from blendTraits_numeric_in_unit [OF a b c d e] a b c d e f show ?thesis by simp
qed

section \<open>Properties of the payment clients\<close>

lemma show_nat_8453: "show_nat 8453 = ''8453''"
  by (simp add: show_nat.simps)

lemma parse_mismatch:
  "networkId info \<noteq> show_nat chainId \<Longrightarrow> \<exists>e. parsePaymentRequired chainId (ParsedInfo info) = Inl e"
  by (simp add: parsePaymentRequired_def)

lemma signs_without_history:
  assumes "maxAmountRequired info = Some a \<and> historicalAvg env k \<le> 0 \<and> a \<le> walletBalance env k
        \<and> respError (parsePaymentResponse (paymentResponseHeader (paidResponse env k))) \<noteq> Some ''invalid''"
  shows "\<exists>out tr'. handlePaymentRequired (Suc fuel) env chainId info k tr = Some (out, tr')
         \<and> out \<noteq> Inl PriceExceedsAverage
         \<and> signedPayments tr' = signedPayments tr @
               [\<lparr> payTo = beneficiary info, payValue = Some a,
                   validAfter = nowSeconds env k - 60,
                   validBefore = nowSeconds env k
                     + (case validForSeconds info of Some v \<Rightarrow> v | None \<Rightarrow> 60),
                   nonce = nonceAt env k \<rparr>]"
  using assms by (auto simp: Let_def split: option.splits)

text \<open>
  C4 as stated fails: neither client makes all the checks it names. The payment-module
  client has no configured ceiling: with no payment history it signs a payment of 1000000.
  The network-module client, which has the ceiling, only logs a warning for a network id
  that is not a Base id, and pays.
\<close>
theorem challenge_paid_despite_claimed_checks:
  "map payValue (signedPayments (snd (the
         (request 1 no_history 8453 (challenge (example_info ''8453'' 1000000))))))
       = [Some 1000000]
   \<and> net_parsePaymentRequired (ParsedInfo (example_info ''1'' 1))
       = Inr (example_info ''1'' 1, [''[X402] Unexpected network ID: 1''])
   \<and> fst (executePayment 5 example_net_env (example_info ''1'' 1)) = Inr (Some ''0xtx1'')
   \<and> map payValue (snd (executePayment 5 example_net_env (example_info ''1'' 1))) = [Some 1]"
  by (simp add: example_info_def empty_trace_def success_response_def
      parsePaymentResponse_def Let_def request_def no_history_def challenge_def
      parsePaymentRequired_def show_nat_8453 net_parsePaymentRequired_def executePayment_def
      example_net_env_def)

text \<open>
  C4, amended. The payment-module client rejects a challenge without signing anything when
  the descriptor's network id is not the configured chain id; it has no ceiling, and while
  the logger reports no positive average it signs any amount the wallet balance covers and
  does not reject it for its price (a payee answering \<open>invalid\<close>, which makes it sign again,
  set aside). The network-module client rejects without signing when the amount exceeds its
  configured ceiling \<open>maxPrice\<close>; it accepts a descriptor of scheme \<open>exact\<close> whatever its
  network id.
  What the payment-module client does with an amount above a positive historical average is
  left open.
\<close>
theorem challenge_rejections:
  "(networkId info \<noteq> show_nat chainId \<longrightarrow>
      (\<exists>e. request fuel env chainId (challenge info) = Some (Inl e, empty_trace)))
   \<and> (maxAmountRequired info = Some a \<and> historicalAvg env k \<le> 0 \<and> a \<le> walletBalance env k
        \<and> respError (parsePaymentResponse (paymentResponseHeader (paidResponse env k))) \<noteq> Some ''invalid''
      \<longrightarrow>
      (\<exists>out tr'. handlePaymentRequired (Suc fuel) env chainId info k tr = Some (out, tr')
         \<and> out \<noteq> Inl PriceExceedsAverage
         \<and> signedPayments tr' = signedPayments tr @
               [\<lparr> payTo = beneficiary info, payValue = Some a,
                   validAfter = nowSeconds env k - 60,
                   validBefore = nowSeconds env k
                     + (case validForSeconds info of Some v \<Rightarrow> v | None \<Rightarrow> 60),
                   nonce = nonceAt env k \<rparr>]))
   \<and> (maxAmountRequired info = Some a \<and> maxPrice < a \<longrightarrow>
      isl (fst (executePayment maxPrice nenv info)) \<and> snd (executePayment maxPrice nenv info) = [])
   \<and> (scheme info = ''exact'' \<longrightarrow>
      (\<exists>warnings. net_parsePaymentRequired (ParsedInfo info) = Inr (info, warnings)))"
proof (intro conjI impI)
  assume "networkId info \<noteq> show_nat chainId"
  then obtain e where "parsePaymentRequired chainId (ParsedInfo info) = Inl e"
    using parse_mismatch by blast
  then show "\<exists>e. request fuel env chainId (challenge info) = Some (Inl e, empty_trace)"
    by (simp add: request_def challenge_def)
next
  assume "maxAmountRequired info = Some a \<and> historicalAvg env k \<le> 0 \<and> a \<le> walletBalance env k
        \<and> respError (parsePaymentResponse (paymentResponseHeader (paidResponse env k))) \<noteq> Some ''invalid''"
  then show "\<exists>out tr'. handlePaymentRequired (Suc fuel) env chainId info k tr = Some (out, tr')
         \<and> out \<noteq> Inl PriceExceedsAverage
         \<and> signedPayments tr' = signedPayments tr @
               [\<lparr> payTo = beneficiary info, payValue = Some a,
                   validAfter = nowSeconds env k - 60,
                   validBefore = nowSeconds env k
                     + (case validForSeconds info of Some v \<Rightarrow> v | None \<Rightarrow> 60),
                   nonce = nonceAt env k \<rparr>]"
    by (rule signs_without_history)
next
  assume "maxAmountRequired info = Some a \<and> maxPrice < a"
  then show "isl (fst (executePayment maxPrice nenv info))"
    by (simp add: executePayment_def)
next
  assume "maxAmountRequired info = Some a \<and> maxPrice < a"
  then show "snd (executePayment maxPrice nenv info) = []"
    by (simp add: executePayment_def)
next
  assume "scheme info = ''exact''"
  then show "\<exists>warnings. net_parsePaymentRequired (ParsedInfo info) = Inr (info, warnings)"
    by (simp add: net_parsePaymentRequired_def)
qed

theorem challenge_rejections_witness:
  "networkId (example_info ''1'' 1) \<noteq> show_nat 8453
   \<and> request 1 no_history 8453 (challenge (example_info ''1'' 1)) = Some (Inl (NetworkMismatch ''1''), empty_trace)
   \<and> maxAmountRequired (example_info ''8453'' 1000000) = Some 1000000
   \<and> historicalAvg no_history 0 \<le> 0
   \<and> 1000000 \<le> walletBalance no_history 0
   \<and> respError (parsePaymentResponse (paymentResponseHeader (paidResponse no_history 0))) \<noteq> Some ''invalid''
   \<and> (\<exists>out tr'. handlePaymentRequired (Suc 0) no_history 8453 (example_info ''8453'' 1000000) 0 empty_trace
          = Some (out, tr')
        \<and> out \<noteq> Inl PriceExceedsAverage
        \<and> map payValue (signedPayments tr') = [Some 1000000])
   \<and> maxAmountRequired (example_info ''8453'' 6) = Some 6 \<and> (5::real) < 6
   \<and> executePayment 5 example_net_env (example_info ''8453'' 6) = (Inl PriceExceedsMaximum, [])
   \<and> scheme (example_info ''1'' 1) = ''exact''
   \<and> (\<exists>warnings. net_parsePaymentRequired (ParsedInfo (example_info ''1'' 1))
        = Inr (example_info ''1'' 1, warnings))"
proof -
  have a: "networkId (example_info ''1'' 1) \<noteq> show_nat 8453"
    by (simp add: example_info_def show_nat_8453)
  have b: "maxAmountRequired (example_info ''8453'' 1000000) = Some 1000000
     \<and> historicalAvg no_history 0 \<le> 0 \<and> 1000000 \<le> walletBalance no_history 0
     \<and> respError (parsePaymentResponse (paymentResponseHeader (paidResponse no_history 0))) \<noteq> Some ''invalid''"
    by (simp add: example_info_def no_history_def success_response_def parsePaymentResponse_def)
  have c: "maxAmountRequired (example_info ''8453'' 6) = Some 6 \<and> (5::real) < 6"
    by (simp add: example_info_def)
  have d: "scheme (example_info ''1'' 1) = ''exact''"
    by (simp add: example_info_def)
  have r: "request 1 no_history 8453 (challenge (example_info ''1'' 1)) = Some (Inl (NetworkMismatch ''1''), empty_trace)"
    by (simp add: request_def challenge_def parsePaymentRequired_def example_info_def show_nat_8453)
  have x: "executePayment 5 example_net_env (example_info ''8453'' 6) = (Inl PriceExceedsMaximum, [])"
    by (simp add: executePayment_def example_net_env_def example_info_def)
  from challenge_rejections [of "example_info ''1'' 1" 8453 0 no_history 1 0 empty_trace 5 example_net_env]
    challenge_rejections [of "example_info ''8453'' 1000000" 8453 0 no_history 1000000 0 empty_trace 5 example_net_env]
    challenge_rejections [of "example_info ''8453'' 6" 8453 0 no_history 6 0 empty_trace 5 example_net_env]
    a b c d r x
  show ?thesis by (auto simp: empty_trace_def)
qed

lemma always_invalid_never_returns:
  "handlePaymentRequired fuel always_invalid chainId (example_info ''8453'' 1) k tr = None"
  by (induction fuel arbitrary: k tr)
     (simp_all add: always_invalid_def example_info_def error_response_def parsePaymentResponse_def Let_def)

text \<open>
  C5, the retry on \<open>invalid\<close>, on the code: a server that answers \<open>invalid\<close> twice and then
  accepts makes the client sign three payments, two of them retries, each with the nonce the
  wallet gives that attempt; a server that always answers \<open>invalid\<close> keeps the client
  retrying for ever (no amount of fuel gives a result). A \<open>funds_exceeded\<close> answer ends the
  call with an error after the one payment signed.
\<close>
theorem invalid_retried_without_bound:
  "fst (the (handlePaymentRequired 3 (invalid_then_success 2) 8453 (example_info ''8453'' 1) 0 empty_trace))
       = Inr success_response
   \<and> map nonce (signedPayments (snd (the
         (handlePaymentRequired 3 (invalid_then_success 2) 8453 (example_info ''8453'' 1) 0 empty_trace))))
       = [''n0'', ''n1'', ''n2'']
   \<and> (\<forall>fuel. handlePaymentRequired fuel always_invalid 8453 (example_info ''8453'' 1) 0 empty_trace = None)
   \<and> fst (the (handlePaymentRequired (Suc fuel) funds_exceeded_server 8453 (example_info ''8453'' 1) 0 empty_trace))
       = Inl FundsExceeded
   \<and> map nonce (signedPayments (snd (the
         (handlePaymentRequired (Suc fuel) funds_exceeded_server 8453 (example_info ''8453'' 1) 0 empty_trace))))
       = [''n0'']"
proof -
  have s: "show_nat 0 = ''0''" "show_nat (Suc 0) = ''1''" "show_nat (Suc (Suc 0)) = ''2''"
    by (simp_all add: show_nat.simps)
  have three: "handlePaymentRequired 3 = handlePaymentRequired (Suc (Suc (Suc 0)))"
    by (simp add: numeral_3_eq_3)
  show ?thesis
    using always_invalid_never_returns [of _ 8453 0 empty_trace]
    by (simp add: three invalid_then_success_def funds_exceeded_server_def example_info_def
        empty_trace_def error_response_def success_response_def parsePaymentResponse_def Let_def s)
qed

text \<open>
  C6, settlement confirmation, on the code. Evidence that the facilitator accepts but never
  confirms: polling stops at the timeout, \<^verbatim>\<open>pollForSettlement\<close> returns false and the
  pending-settlements map stays empty, so nothing is left to retry. A \<open>failed\<close> status does not
  end the polling: the next poll, answering \<open>confirmed\<close>, makes the call return true. Only
  evidence whose submission fails five times is cached.
\<close>
theorem poll_timeout_not_cached:
  "pollForSettlement 1 never_confirms 300000 example_evidence [] = Some (False, [])
   \<and> processPendingSettlements 1 (\<lambda>tx. never_confirms) 300000 [] = Some []
   \<and> pollForSettlement 1 failed_then_confirmed 300000 example_evidence [] = Some (True, [])
   \<and> pollForSettlement 6 submission_fails 300000 example_evidence [] = Some (False, [(''0xtx1'', example_evidence)])"
proof -
  have a: "pollForSettlement 1 never_confirms 300000 example_evidence [] = Some (False, [])"
    by (simp add: pollForSettlement_def never_confirms_def poll_loop.simps)
  have b: "processPendingSettlements 1 (\<lambda>tx. never_confirms) 300000 [] = Some []"
    by (simp add: processPendingSettlements_def)
  have c: "pollForSettlement 1 failed_then_confirmed 300000 example_evidence [] = Some (True, [])"
    by (simp add: pollForSettlement_def failed_then_confirmed_def poll_loop.simps)
  have six: "submit_loop 6 = submit_loop (Suc (Suc (Suc (Suc (Suc (Suc 0))))))"
    by (simp add: eval_nat_numeral)
  have d: "pollForSettlement 6 submission_fails 300000 example_evidence []
             = Some (False, [(''0xtx1'', example_evidence)])"
    by (simp add: pollForSettlement_def six submission_fails_def pending_set_def example_evidence_def)
  from a b c d show ?thesis by simp
qed

end
